theory Spec2Isabelle
  imports Main "HOL-Library.Word"
begin

section \<open>Data model (internal/api: the wire objects and the domain objects)\<close>

text \<open>
  Go strings are \<open>string\<close>; \<open>uint64\<close> is \<open>64 word\<close>; a pointer result that may be
  \<open>nil\<close> is an \<open>option\<close>. Several Go structs share field names (\<open>ID\<close>, \<open>Name\<close>,
  \<open>State\<close>), so every record field carries a short prefix naming its struct.
  An instant (\<open>time.Time\<close>) is a number of nanoseconds, a \<open>time.Duration\<close> likewise.
\<close>

type_synonym go_time = int
type_synonym go_duration = int

text \<open>One entry of \<open>S1APIErrors.Errors\<close>.\<close>

record S1APIError =
  err_Code :: "64 word"
  err_Detail :: string
  err_Title :: string

text \<open>
  \<open>S1APIResponse\<close>: the embedded \<open>S1APIErrors\<close> and \<open>S1APIPageInfo\<close>, and the raw
  \<open>data\<close> payload (\<open>json.RawMessage\<close>: undecoded bytes).
\<close>

record S1APIResponse =
  resp_Errors :: "S1APIError list"
  resp_NextCursor :: string
  resp_TotalItems :: "64 word"
  resp_Data :: string

record S1AccountProvisioningRequest =
  areq_AccountName :: string
  areq_AccountType :: string
  areq_Expires :: string
  areq_ExternalID :: string
  areq_ReactivateAccount :: bool
  areq_Bundle :: string
  areq_TotalAgents :: int
  areq_Modules :: "string list"

record S1APIAccountObject =
  ao_ID :: string
  ao_AccountType :: string
  ao_BillingMode :: string
  ao_Expiration :: string
  ao_ExternalID :: string
  ao_Name :: string
  ao_State :: string

record S1Account =
  acct_ID :: string
  acct_AccountType :: string
  acct_BillingMode :: string
  acct_Expiration :: go_time
  acct_ExternalID :: string
  acct_Name :: string
  acct_State :: string

record S1UserProvisioningRequest =
  ureq_FirstName :: string
  ureq_LastName :: string
  ureq_EmailAddress :: string
  ureq_Role :: string

record S1APIUserScopeRoleObject =
  sro_ScopeID :: string
  sro_RoleID :: string
  sro_RoleName :: string

record S1APIUserObject =
  uo_ID :: string
  uo_EmailAddress :: string
  uo_EmailVerified :: bool
  uo_TwoFactorStatus :: string
  uo_Scope :: string
  uo_ScopeRoles :: "S1APIUserScopeRoleObject list"

record S1UserScopeRole =
  sr_ScopeID :: string
  sr_RoleID :: string
  sr_RoleName :: string

record S1User =
  user_ID :: string
  user_EmailAddress :: string
  user_EmailVerified :: bool
  user_TwoFactorStatus :: string
  user_Scope :: string
  user_ScopeRoles :: "S1UserScopeRole list"

record S1APIRoleObject =
  ro_AccountName :: string
  ro_ID :: string
  ro_Name :: string
  ro_PredefinedRole :: bool
  ro_Scope :: string
  ro_ScopeID :: string
  ro_UsersInRole :: "64 word"

record S1Role =
  role_AccountName :: string
  role_ID :: string
  role_Name :: string
  role_PredefinedRole :: bool
  role_Scope :: string
  role_ScopeID :: string
  role_UsersInRole :: "64 word"

text \<open>\<open>S1APISuccessResponseData\<close>.\<close>

record S1APISuccessResponseData =
  succ_Success :: bool

section \<open>Errors (internal/errors)\<close>

text \<open>
  \<open>NewS1ClientError\<close> and \<open>NewS1ClientRequestError\<close> both build a
  \<open>*S1ClientRequestError\<close>; they differ in the error code of the base error and in
  whether method and URL are filled. The wrapped Go \<open>error\<close> is kept as its message.
\<close>

definition S1ClientErrorCode :: nat where
  "S1ClientErrorCode = 101"

definition S1ClientRequestErrorCode :: nat where
  "S1ClientRequestErrorCode = 102"

record S1ClientRequestError =
  e_code :: nat
  e_internal :: string
  e_method :: string
  e_msg :: string
  e_url :: string

definition NewS1ClientError :: "string \<Rightarrow> string \<Rightarrow> S1ClientRequestError" where
  "NewS1ClientError msg err =
     \<lparr>e_code = S1ClientErrorCode, e_internal = err, e_method = [], e_msg = msg, e_url = []\<rparr>"

definition NewS1ClientRequestError ::
  "string \<Rightarrow> string \<Rightarrow> string \<Rightarrow> string \<Rightarrow> S1ClientRequestError" where
  "NewS1ClientRequestError method url msg err =
     \<lparr>e_code = S1ClientRequestErrorCode, e_internal = err, e_method = method, e_msg = msg,
      e_url = url\<rparr>"

section \<open>The request a call sends and the transport that carries it\<close>

text \<open>
  A request body is a Go \<open>map[string]any\<close>: a JSON tree, objects as association lists in
  the order the source writes the keys.
\<close>

datatype json =
    JBool bool
  | JInt int
  | JString string
  | JArray "json list"
  | JObject "(string \<times> json) list"

text \<open>
  What \<open>resty.Request\<close> holds when it is executed: method, URL, the headers set, the
  body (if one was set) and the query parameters.
\<close>

record http_request =
  rq_method :: string
  rq_url :: string
  rq_headers :: "(string \<times> string) list"
  rq_body :: "json option"
  rq_params :: "(string \<times> string) list"

text \<open>
  \<open>req.Execute\<close> either fails (a transport error, kept as its message) or yields a
  response: status code and body bytes.
\<close>

datatype http_result =
    TransportError string
  | Response int string

text \<open>
  The client: base URL, API key, and the HTTP client, which is a step function of the
  remote platform's state \<open>'w\<close>. The logger of \<open>appState\<close> only writes log lines and is
  left out.
\<close>

record 'w S1Client =
  apiKey :: string
  baseURL :: string
  client :: "'w \<Rightarrow> http_request \<Rightarrow> http_result \<times> 'w"

text \<open>
  The state threaded through the calls: the remote platform's state and the log of the
  requests issued so far, oldest first.
\<close>

record 'w session =
  remote :: 'w
  calls :: "http_request list"

text \<open>
  The Go standard library as the client uses it, taken as parameters: the clock,
  \<open>time.ParseDuration\<close>, \<open>time.Parse(time.RFC3339, _)\<close>, \<open>Time.Format(time.RFC3339)\<close>,
  the random source behind \<open>rand.Intn\<close> (the i-th draw of a call), and
  \<open>json.Unmarshal\<close> at each target type the client decodes into. A failure is \<open>Inl\<close>
  of the error's message.
\<close>

record go_runtime =
  timeNow :: go_time
  ParseDuration :: "string \<Rightarrow> string + go_duration"
  ParseRFC3339 :: "string \<Rightarrow> string + go_time"
  FormatRFC3339 :: "go_time \<Rightarrow> string"
  randSource :: "nat \<Rightarrow> nat"
  UnmarshalResponse :: "string \<Rightarrow> string + S1APIResponse"
  UnmarshalAccounts :: "string \<Rightarrow> string + S1APIAccountObject list"
  UnmarshalAccount :: "string \<Rightarrow> string + S1APIAccountObject"
  UnmarshalUsers :: "string \<Rightarrow> string + S1APIUserObject list"
  UnmarshalUser :: "string \<Rightarrow> string + S1APIUserObject"
  UnmarshalRoles :: "string \<Rightarrow> string + S1APIRoleObject list"
  UnmarshalSuccess :: "string \<Rightarrow> string + S1APISuccessResponseData"

text \<open>\<open>fmt\<close>'s \<open>%d\<close> of an \<open>int\<close>.\<close>

fun showNat :: "nat \<Rightarrow> string" where
  "showNat n =
     (if n < 10 then [''0123456789'' ! n]
      else showNat (n div 10) @ [''0123456789'' ! (n mod 10)])"

definition showInt :: "int \<Rightarrow> string" where
  "showInt i = (if i < 0 then CHR ''-'' # showNat (nat (- i)) else showNat (nat i))"

text \<open>The option functions passed to \<open>exec\<close>.\<close>

definition withRequestBody :: "json \<Rightarrow> http_request \<Rightarrow> http_request" where
  "withRequestBody body r = r\<lparr>rq_body := Some body\<rparr>"

text \<open>
  \<open>SetQueryParams\<close> sets each key of the map; the maps the source passes have distinct
  keys and the request has none before, so the parameters are the map's entries.
\<close>

definition withRequestParams :: "(string \<times> string) list \<Rightarrow> http_request \<Rightarrow> http_request" where
  "withRequestParams ps r = r\<lparr>rq_params := rq_params r @ ps\<rparr>"

text \<open>
  The request \<open>exec\<close> builds before executing it: the three headers, then every option
  function in order; \<open>Execute\<close> fills in method and URL.
\<close>

definition apiURL :: "'w S1Client \<Rightarrow> string \<Rightarrow> string" where
  "apiURL c endpoint = baseURL c @ ''/web/api/v2.1'' @ endpoint"

definition buildRequest ::
  "'w S1Client \<Rightarrow> string \<Rightarrow> string \<Rightarrow> (http_request \<Rightarrow> http_request) list \<Rightarrow> http_request" where
  "buildRequest c method endpoint optFns =
     (foldl (\<lambda>req fn. fn req)
        \<lparr>rq_method = [], rq_url = [],
         rq_headers = [(''Content-Type'', ''application/json''),
                       (''Accept'', ''application/json''),
                       (''Authorization'', ''ApiToken '' @ apiKey c)],
         rq_body = None, rq_params = []\<rparr>
        optFns)
     \<lparr>rq_method := method, rq_url := apiURL c endpoint\<rparr>"

section \<open>exec: one call to the REST API\<close>

text \<open>
  The status checks come in the source's order: 405 and above first, then 500 and
  above, then the envelope is decoded and its error list inspected. Each reported error
  is only logged; the result carries one error built from fixed text.
\<close>

definition exec ::
  "'w S1Client \<Rightarrow> go_runtime \<Rightarrow> string \<Rightarrow> string \<Rightarrow> (http_request \<Rightarrow> http_request) list \<Rightarrow>
   'w session \<Rightarrow> (S1ClientRequestError + S1APIResponse) \<times> 'w session" where
  "exec c rt method endpoint optFns s =
     (let url = apiURL c endpoint;
          req = buildRequest c method endpoint optFns;
          (res, w') = client c (remote s) req;
          s' = \<lparr>remote = w', calls = calls s @ [req]\<rparr>
      in case res of
           TransportError err \<Rightarrow>
             (Inl (NewS1ClientRequestError method url ''failed to execute request'' err), s')
         | Response httpCode body \<Rightarrow>
             if httpCode \<ge> 405 then
               (Inl (NewS1ClientRequestError method url ''failed to execute request''
                       ''method is not allowed for endpoint''), s')
             else if httpCode \<ge> 500 then
               (Inl (NewS1ClientRequestError method url ''failed to execute request''
                       (''request returned server error code '' @ showInt httpCode)), s')
             else
               (case UnmarshalResponse rt body of
                  Inl err \<Rightarrow>
                    (Inl (NewS1ClientRequestError method url
                            ''failed to unmarshal response from request'' err), s')
                | Inr apiResponse \<Rightarrow>
                    if length (resp_Errors apiResponse) > 0 then
                      (Inl (NewS1ClientRequestError method url
                              ''server returned one or more API errors''
                              ''server returned one or more API errors''), s')
                    else (Inr apiResponse, s')))"

section \<open>Resource codecs\<close>

definition fromS1APIAccountObject ::
  "go_runtime \<Rightarrow> S1APIAccountObject \<Rightarrow> S1ClientRequestError + S1Account" where
  "fromS1APIAccountObject rt o' =
     (case ParseRFC3339 rt (ao_Expiration o') of
        Inl err \<Rightarrow> Inl (NewS1ClientError ''failed to parse account expiration date'' err)
      | Inr expires \<Rightarrow>
          Inr \<lparr>acct_ID = ao_ID o', acct_AccountType = ao_AccountType o',
               acct_BillingMode = ao_BillingMode o', acct_Expiration = expires,
               acct_ExternalID = ao_ExternalID o', acct_Name = ao_Name o',
               acct_State = ao_State o'\<rparr>)"

definition fromS1APIRoleObject :: "S1APIRoleObject \<Rightarrow> S1ClientRequestError + S1Role" where
  "fromS1APIRoleObject o' =
     Inr \<lparr>role_AccountName = ro_AccountName o', role_ID = ro_ID o', role_Name = ro_Name o',
          role_PredefinedRole = ro_PredefinedRole o', role_Scope = ro_Scope o',
          role_ScopeID = ro_ScopeID o', role_UsersInRole = ro_UsersInRole o'\<rparr>"

definition fromS1APIUserScopeRoleObject :: "S1APIUserScopeRoleObject \<Rightarrow> S1UserScopeRole" where
  "fromS1APIUserScopeRoleObject r =
     \<lparr>sr_ScopeID = sro_ScopeID r, sr_RoleID = sro_RoleID r, sr_RoleName = sro_RoleName r\<rparr>"

definition fromS1APIUserObject :: "S1APIUserObject \<Rightarrow> S1ClientRequestError + S1User" where
  "fromS1APIUserObject o' =
     Inr (foldl (\<lambda>user role.
                   user\<lparr>user_ScopeRoles :=
                          user_ScopeRoles user @ [fromS1APIUserScopeRoleObject role]\<rparr>)
            \<lparr>user_ID = uo_ID o', user_EmailAddress = uo_EmailAddress o',
             user_EmailVerified = uo_EmailVerified o',
             user_TwoFactorStatus = uo_TwoFactorStatus o', user_Scope = uo_Scope o',
             user_ScopeRoles = []\<rparr>
            (uo_ScopeRoles o'))"

section \<open>Lookups by the natural key\<close>

text \<open>
  Each lookup returns \<open>Inl\<close> of an error, \<open>Inr None\<close> for Go's \<open>(nil, nil)\<close>, or
  \<open>Inr (Some x)\<close>. Only the first element of the decoded list is used.
\<close>

definition FindAccount ::
  "'w S1Client \<Rightarrow> go_runtime \<Rightarrow> string \<Rightarrow> 'w session \<Rightarrow>
   (S1ClientRequestError + S1Account option) \<times> 'w session" where
  "FindAccount c rt name s =
     (case exec c rt ''GET'' ''/accounts''
             [withRequestParams [(''name'', name), (''limit'', ''1'')]] s of
        (Inl err, s') \<Rightarrow> (Inl err, s')
      | (Inr resp, s') \<Rightarrow>
          (case UnmarshalAccounts rt (resp_Data resp) of
             Inl err \<Rightarrow> (Inl (NewS1ClientError ''failed to unmarshal response from server'' err), s')
           | Inr apiAccounts \<Rightarrow>
               (case apiAccounts of
                  [] \<Rightarrow> (Inr None, s')
                | a # _ \<Rightarrow> (map_sum id Some (fromS1APIAccountObject rt a), s'))))"

definition FindRole ::
  "'w S1Client \<Rightarrow> go_runtime \<Rightarrow> string \<Rightarrow> string \<Rightarrow> 'w session \<Rightarrow>
   (S1ClientRequestError + S1Role option) \<times> 'w session" where
  "FindRole c rt accountID name s =
     (case exec c rt ''GET'' ''/rbac/roles''
             [withRequestParams [(''accountIds'', accountID), (''name'', name), (''limit'', ''1'')]] s of
        (Inl err, s') \<Rightarrow> (Inl err, s')
      | (Inr resp, s') \<Rightarrow>
          (case UnmarshalRoles rt (resp_Data resp) of
             Inl err \<Rightarrow> (Inl (NewS1ClientError ''failed to unmarshal response from server'' err), s')
           | Inr apiRoles \<Rightarrow>
               (case apiRoles of
                  [] \<Rightarrow> (Inr None, s')
                | r # _ \<Rightarrow> (map_sum id Some (fromS1APIRoleObject r), s'))))"

definition FindUser ::
  "'w S1Client \<Rightarrow> go_runtime \<Rightarrow> string \<Rightarrow> 'w session \<Rightarrow>
   (S1ClientRequestError + S1User option) \<times> 'w session" where
  "FindUser c rt email s =
     (case exec c rt ''GET'' ''/users''
             [withRequestParams [(''email'', email), (''limit'', ''1'')]] s of
        (Inl err, s') \<Rightarrow> (Inl err, s')
      | (Inr resp, s') \<Rightarrow>
          (case UnmarshalUsers rt (resp_Data resp) of
             Inl err \<Rightarrow> (Inl (NewS1ClientError ''failed to unmarshal response from server'' err), s')
           | Inr apiUsers \<Rightarrow>
               (case apiUsers of
                  [] \<Rightarrow> (Inr None, s')
                | u # _ \<Rightarrow> (map_sum id Some (fromS1APIUserObject u), s'))))"

section \<open>Reactivation and scope-role update\<close>

definition reactivateBody :: "go_runtime \<Rightarrow> go_time \<Rightarrow> json" where
  "reactivateBody rt expires =
     JObject [(''data'', JObject [(''unlimited'', JBool False),
                                  (''expiration'', JString (FormatRFC3339 rt expires))])]"

text \<open>\<open>ReactivateAccount\<close> returns only an error: \<open>None\<close> is Go's \<open>nil\<close>.\<close>

definition ReactivateAccount ::
  "'w S1Client \<Rightarrow> go_runtime \<Rightarrow> string \<Rightarrow> go_time \<Rightarrow> 'w session \<Rightarrow>
   S1ClientRequestError option \<times> 'w session" where
  "ReactivateAccount c rt id' expires s =
     (case exec c rt ''PUT'' (''/accounts/'' @ id' @ ''/reactivate'')
             [withRequestBody (reactivateBody rt expires)] s of
        (Inl err, s') \<Rightarrow> (Some err, s')
      | (Inr resp, s') \<Rightarrow>
          (case UnmarshalSuccess rt (resp_Data resp) of
             Inl err \<Rightarrow> (Some (NewS1ClientError ''failed to unmarshal response from server'' err), s')
           | Inr data \<Rightarrow>
               if \<not> succ_Success data then
                 (Some (NewS1ClientError ''failed to reactivate account''
                          ''activation was not successful''), s')
               else (None, s')))"

text \<open>A \<open>S1UserScopeRole\<close> inside a body is marshalled by its JSON tags.\<close>

definition scopeRoleJSON :: "S1UserScopeRole \<Rightarrow> json" where
  "scopeRoleJSON r =
     JObject [(''id'', JString (sr_ScopeID r)), (''roleId'', JString (sr_RoleID r)),
              (''roleName'', JString (sr_RoleName r))]"

definition updateUserBody :: "S1UserScopeRole list \<Rightarrow> json" where
  "updateUserBody roles =
     JObject [(''data'', JObject [(''scope'', JString ''account''),
                                  (''scopeRoles'', JArray (map scopeRoleJSON roles))])]"

definition UpdateUserScopeRoles ::
  "'w S1Client \<Rightarrow> go_runtime \<Rightarrow> string \<Rightarrow> S1UserScopeRole list \<Rightarrow> 'w session \<Rightarrow>
   (S1ClientRequestError + S1User) \<times> 'w session" where
  "UpdateUserScopeRoles c rt userID roles s =
     (case exec c rt ''PUT'' (''/users/'' @ userID) [withRequestBody (updateUserBody roles)] s of
        (Inl err, s') \<Rightarrow> (Inl err, s')
      | (Inr resp, s') \<Rightarrow>
          (case UnmarshalUser rt (resp_Data resp) of
             Inl err \<Rightarrow> (Inl (NewS1ClientError ''failed to unmarshal response from server'' err), s')
           | Inr user \<Rightarrow> (fromS1APIUserObject user, s')))"

section \<open>CreateAccount\<close>

definition createAccountBody ::
  "go_runtime \<Rightarrow> S1AccountProvisioningRequest \<Rightarrow> go_time \<Rightarrow> json" where
  "createAccountBody rt req expires =
     JObject [(''data'', JObject [
       (''name'', JString (areq_AccountName req)),
       (''accountType'', JString (areq_AccountType req)),
       (''billingMode'', JString ''subscription''),
       (''expiration'', JString (FormatRFC3339 rt expires)),
       (''externalId'', JString (areq_ExternalID req)),
       (''inherits'', JBool True),
       (''licenses'', JObject [
          (''bundles'', JArray [JObject [
             (''name'', JString (areq_Bundle req)),
             (''surfaces'', JArray [JObject [
                (''count'', JInt (areq_TotalAgents req)),
                (''name'', JString ''Total Agents'')]])]]),
          (''modules'', JArray (map (\<lambda>module. JObject [(''name'', JString module)])
                                  (areq_Modules req))),
          (''settings'', JArray [
             JObject [(''groupName'', JString ''dv_retention''), (''setting'', JString ''30 Days'')],
             JObject [(''groupName'', JString ''malicious_data_retention''),
                      (''setting'', JString ''365 Days'')],
             JObject [(''groupName'', JString ''remote_shell_availability''),
                      (''setting'', JString ''Enabled'')],
             JObject [(''groupName'', JString ''marketplace_access_status''),
                      (''setting'', JString ''Available'')],
             JObject [(''groupName'', JString ''account_level_ranger''),
                      (''setting'', JString ''Account'')]])]),
       (''unlimitedExpiration'', JBool False),
       (''usageType'', JString ''customer'')])]"

text \<open>
  The block of \<open>CreateAccount\<close> under the comment "configure expiration": the
  \<open>Expires\<close> string as a duration from now, else as an RFC 3339 instant, else an error
  whose message quotes the string.
\<close>

definition configureExpiration ::
  "go_runtime \<Rightarrow> S1AccountProvisioningRequest \<Rightarrow> S1ClientRequestError + go_time" where
  "configureExpiration rt req =
     (case ParseDuration rt (areq_Expires req) of
        Inr dur \<Rightarrow> Inr (timeNow rt + dur)
      | Inl _ \<Rightarrow>
          (case ParseRFC3339 rt (areq_Expires req) of
             Inr expires \<Rightarrow> Inr expires
           | Inl err \<Rightarrow>
               Inl (NewS1ClientError
                      (''failed to parse account expiration time and date '' @
                       [CHR 0x27] @ areq_Expires req @ [CHR 0x27]) err)))"

text \<open>
  The source's order: the lookup by name first, then the expiration, then the switch on
  the state of the account found, then the creation.
\<close>

definition CreateAccount ::
  "'w S1Client \<Rightarrow> go_runtime \<Rightarrow> S1AccountProvisioningRequest \<Rightarrow> 'w session \<Rightarrow>
   (S1ClientRequestError + S1Account) \<times> 'w session" where
  "CreateAccount c rt req s =
     (case FindAccount c rt (areq_AccountName req) s of
        (Inl errx, s1) \<Rightarrow> (Inl errx, s1)
      | (Inr account, s1) \<Rightarrow>
          (case configureExpiration rt req of
             Inl errx \<Rightarrow> (Inl errx, s1)
           | Inr expires \<Rightarrow>
               (case account of
                  Some a \<Rightarrow>
                    if acct_State a = ''active'' then (Inr a, s1)
                    else if acct_State a = ''expired'' then
                      (if \<not> areq_ReactivateAccount req then
                         (Inl (NewS1ClientError
                                 ''failed to create account because it is expired and not set to be reactivated''
                                 ''account already exists''), s1)
                       else
                         (case ReactivateAccount c rt (acct_ID a) expires s1 of
                            (Some errx, s2) \<Rightarrow> (Inl errx, s2)
                          | (None, s2) \<Rightarrow> (Inr a, s2)))
                    else
                      (Inl (NewS1ClientError
                              (''failed to create account because it exists and is currently '' @
                               [CHR 0x27] @ acct_State a @ [CHR 0x27])
                              ''account already exists''), s1)
                | None \<Rightarrow>
                    (case exec c rt ''POST'' ''/accounts''
                            [withRequestBody (createAccountBody rt req expires)] s1 of
                       (Inl errx, s2) \<Rightarrow> (Inl errx, s2)
                     | (Inr resp, s2) \<Rightarrow>
                         (case UnmarshalAccount rt (resp_Data resp) of
                            Inl err \<Rightarrow>
                              (Inl (NewS1ClientError ''failed to unmarshal response from server'' err), s2)
                          | Inr newAcct \<Rightarrow> (fromS1APIAccountObject rt newAcct, s2))))))"

section \<open>CreateUser\<close>

text \<open>
  \<open>CreateUser\<close> reads \<open>adminRole.ID\<close> without a nil check, and \<open>FindRole\<close> returns
  \<open>(nil, nil)\<close> for a role that does not exist: the call can end in a nil-pointer
  panic, which is an outcome of its own.
\<close>

datatype 'a outcome =
    Returned 'a
  | Failed S1ClientRequestError
  | Panicked

text \<open>\<open>rand.Intn n\<close> at the i-th draw, and the 32 characters of the password.\<close>

definition randIntn :: "go_runtime \<Rightarrow> nat \<Rightarrow> nat \<Rightarrow> nat" where
  "randIntn rt i n = randSource rt i mod n"

definition passwordChars :: string where
  "passwordChars = ''ABCDEFGHIJKLMNOPQRSTUVWXYZabcdefghijklmnopqrstuvwxyz0123456789''"

definition generatePassword :: "go_runtime \<Rightarrow> string" where
  "generatePassword rt =
     map (\<lambda>i. passwordChars ! randIntn rt i (length passwordChars)) [0..<32]"

definition createUserBody :: "S1UserProvisioningRequest \<Rightarrow> string \<Rightarrow> string \<Rightarrow> json" where
  "createUserBody req accountID passwd =
     JObject [(''data'', JObject [
       (''email'', JString (ureq_EmailAddress req)),
       (''password'', JString passwd),
       (''fullName'', JString (ureq_FirstName req @ '' '' @ ureq_LastName req)),
       (''scope'', JString ''account''),
       (''scopeRoles'', JArray [JObject [(''id'', JString accountID),
                                         (''roleName'', JString (ureq_Role req))]]),
       (''twoFaEnabled'', JBool True)])]"

definition CreateUser ::
  "'w S1Client \<Rightarrow> go_runtime \<Rightarrow> S1UserProvisioningRequest \<Rightarrow> string \<Rightarrow> 'w session \<Rightarrow>
   S1User outcome \<times> 'w session" where
  "CreateUser c rt req accountID s =
     (case FindUser c rt (ureq_EmailAddress req) s of
        (Inl e, s1) \<Rightarrow> (Failed e, s1)
      | (Inr user, s1) \<Rightarrow>
          (case FindRole c rt accountID ''Admin'' s1 of
             (Inl e, s2) \<Rightarrow> (Failed e, s2)
           | (Inr adminRole, s2) \<Rightarrow>
               (case user of
                  Some u \<Rightarrow>
                    if list_ex (\<lambda>role. sr_ScopeID role = accountID) (user_ScopeRoles u) then
                      (Returned u, s2)
                    else
                      (case adminRole of
                         None \<Rightarrow> (Panicked, s2)
                       | Some ar \<Rightarrow>
                           (case UpdateUserScopeRoles c rt (user_ID u)
                                   (user_ScopeRoles u @
                                    [\<lparr>sr_ScopeID = accountID, sr_RoleID = role_ID ar,
                                      sr_RoleName = role_Name ar\<rparr>]) s2 of
                              (Inl err, s3) \<Rightarrow> (Failed err, s3)
                            | (Inr user', s3) \<Rightarrow> (Returned user', s3)))
                | None \<Rightarrow>
                    (case exec c rt ''POST'' ''/users''
                            [withRequestBody (createUserBody req accountID (generatePassword rt))] s2 of
                       (Inl err, s3) \<Rightarrow> (Failed err, s3)
                     | (Inr resp, s3) \<Rightarrow>
                         (case UnmarshalUser rt (resp_Data resp) of
                            Inl err \<Rightarrow>
                              (Failed (NewS1ClientError ''failed to unmarshal response from server'' err), s3)
                          | Inr newUser \<Rightarrow>
                              (case fromS1APIUserObject newUser of
                                 Inl err \<Rightarrow> (Failed err, s3)
                               | Inr nu \<Rightarrow> (Returned nu, s3)))))))"

section \<open>The calls of the remote API\<close>

text \<open>
  The request that reaches the transport for a given method, endpoint, body and query
  parameters: what \<open>exec\<close> sends when it is given one option function.
\<close>

definition apiCall ::
  "'w S1Client \<Rightarrow> string \<Rightarrow> string \<Rightarrow> json option \<Rightarrow> (string \<times> string) list \<Rightarrow> http_request" where
  "apiCall c method endpoint body params =
     \<lparr>rq_method = method, rq_url = baseURL c @ ''/web/api/v2.1'' @ endpoint,
      rq_headers = [(''Content-Type'', ''application/json''),
                    (''Accept'', ''application/json''),
                    (''Authorization'', ''ApiToken '' @ apiKey c)],
      rq_body = body, rq_params = params\<rparr>"

text \<open>
  Whether the answer to a reactivation call reports success: the call returned an
  envelope, its payload decodes, and the decoded \<open>success\<close> flag is set.
\<close>

definition reportsSuccess :: "go_runtime \<Rightarrow> S1ClientRequestError + S1APIResponse \<Rightarrow> bool" where
  "reportsSuccess rt r =
     (case r of
        Inl _ \<Rightarrow> False
      | Inr resp \<Rightarrow>
          (case UnmarshalSuccess rt (resp_Data resp) of
             Inl _ \<Rightarrow> False
           | Inr data \<Rightarrow> succ_Success data))"

text \<open>
  With \<open>account\<close> what the lookup of \<open>CreateAccount\<close> found and \<open>s1\<close> the session
  right after it: \<open>expires\<close> is the expiration target the run goes on with. The call
  that follows the lookup carries it: the create call when no account was found, the
  reactivation call when an expired account is to be reactivated; in the remaining
  cases no call follows.
\<close>

definition carriesExpiration ::
  "'w S1Client \<Rightarrow> go_runtime \<Rightarrow> S1AccountProvisioningRequest \<Rightarrow> 'w session \<Rightarrow>
   S1Account option \<Rightarrow> 'w session \<Rightarrow> go_time \<Rightarrow> bool" where
  "carriesExpiration c rt req s account s1 expires =
     (case account of
        None \<Rightarrow>
          calls (snd (CreateAccount c rt req s)) =
            calls s1 @ [apiCall c ''POST'' ''/accounts'' (Some (createAccountBody rt req expires)) []]
      | Some a \<Rightarrow>
          if acct_State a = ''expired'' \<and> areq_ReactivateAccount req
          then calls (snd (CreateAccount c rt req s)) =
                 calls s1 @ [apiCall c ''PUT'' (''/accounts/'' @ acct_ID a @ ''/reactivate'')
                               (Some (reactivateBody rt expires)) []]
          else calls (snd (CreateAccount c rt req s)) = calls s1)"

section \<open>A reference platform\<close>

text \<open>
  A small in-memory platform on which the client can be run: one tenant name
  (\<open>Acme\<close>, identifier \<open>acct-1\<close>), one user (\<open>user-1\<close>) and the \<open>Admin\<close> role of
  that account. Its state says in which lifecycle state the account is (the empty
  string: there is no such account), whether the user exists and is already bound to
  the account, whether the role exists, and which searches are out of service.
\<close>

record platform =
  p_acme :: string
  p_member :: "bool option"
  p_admin :: bool
  p_accountsDown :: bool
  p_rolesDown :: bool

definition refClient :: "platform \<Rightarrow> http_request \<Rightarrow> http_result \<times> platform" where
  "refClient w r =
     (if rq_method r = ''GET'' \<and> rq_url r = ''https://s1.test/web/api/v2.1/accounts'' then
        (if p_accountsDown w then (TransportError ''connection refused'', w)
         else (Response 200 (if p_acme w = [] then ''[]'' else ''[acme:'' @ p_acme w @ '']''), w))
      else if rq_method r = ''POST'' \<and> rq_url r = ''https://s1.test/web/api/v2.1/accounts'' then
        (Response 200 ''acme:active'', w\<lparr>p_acme := ''active''\<rparr>)
      else if rq_method r = ''PUT'' \<and>
              rq_url r = ''https://s1.test/web/api/v2.1/accounts/acct-1/reactivate'' then
        (Response 200 ''success'', w\<lparr>p_acme := ''active''\<rparr>)
      else if rq_method r = ''GET'' \<and> rq_url r = ''https://s1.test/web/api/v2.1/users'' then
        (Response 200
           (case p_member w of None \<Rightarrow> ''[]''
            | Some b \<Rightarrow> if b then ''[user:member]'' else ''[user]''), w)
      else if rq_method r = ''GET'' \<and> rq_url r = ''https://s1.test/web/api/v2.1/rbac/roles'' then
        (if p_rolesDown w then (Response 503 ''unavailable'', w)
         else (Response 200 (if p_admin w then ''[admin]'' else ''[]''), w))
      else if rq_method r = ''PUT'' \<and> rq_url r = ''https://s1.test/web/api/v2.1/users/user-1'' then
        (Response 200 ''user:member'', w\<lparr>p_member := Some True\<rparr>)
      else if rq_method r = ''POST'' \<and> rq_url r = ''https://s1.test/web/api/v2.1/users'' then
        (Response 200 ''user:member'', w\<lparr>p_member := Some True\<rparr>)
      else (Response 404 ''{errors:2}'', w))"

definition refS1 :: "platform S1Client" where
  "refS1 = \<lparr>apiKey = ''k'', baseURL = ''https://s1.test'', client = refClient\<rparr>"

definition acmeObject :: "string \<Rightarrow> S1APIAccountObject" where
  "acmeObject st =
     \<lparr>ao_ID = ''acct-1'', ao_AccountType = ''Paid'', ao_BillingMode = ''subscription'',
      ao_Expiration = ''2030-01-01T00:00:00Z'', ao_ExternalID = ''ext-1'', ao_Name = ''Acme'',
      ao_State = st\<rparr>"

definition acmeAccount :: "string \<Rightarrow> S1Account" where
  "acmeAccount st =
     \<lparr>acct_ID = ''acct-1'', acct_AccountType = ''Paid'', acct_BillingMode = ''subscription'',
      acct_Expiration = 1893456000, acct_ExternalID = ''ext-1'', acct_Name = ''Acme'',
      acct_State = st\<rparr>"

definition userObject :: "bool \<Rightarrow> S1APIUserObject" where
  "userObject member =
     \<lparr>uo_ID = ''user-1'', uo_EmailAddress = ''ann@acme.test'', uo_EmailVerified = True,
      uo_TwoFactorStatus = ''configured'', uo_Scope = ''account'',
      uo_ScopeRoles =
        \<lparr>sro_ScopeID = ''acct-0'', sro_RoleID = ''role-3'', sro_RoleName = ''Viewer''\<rparr> #
        (if member
         then [\<lparr>sro_ScopeID = ''acct-1'', sro_RoleID = ''role-9'', sro_RoleName = ''Admin''\<rparr>]
         else [])\<rparr>"

definition annUser :: "bool \<Rightarrow> S1User" where
  "annUser member =
     \<lparr>user_ID = ''user-1'', user_EmailAddress = ''ann@acme.test'', user_EmailVerified = True,
      user_TwoFactorStatus = ''configured'', user_Scope = ''account'',
      user_ScopeRoles =
        \<lparr>sr_ScopeID = ''acct-0'', sr_RoleID = ''role-3'', sr_RoleName = ''Viewer''\<rparr> #
        (if member
         then [\<lparr>sr_ScopeID = ''acct-1'', sr_RoleID = ''role-9'', sr_RoleName = ''Admin''\<rparr>]
         else [])\<rparr>"

definition adminObject :: S1APIRoleObject where
  "adminObject =
     \<lparr>ro_AccountName = ''Acme'', ro_ID = ''role-9'', ro_Name = ''Admin'',
      ro_PredefinedRole = True, ro_Scope = ''account'', ro_ScopeID = ''acct-1'',
      ro_UsersInRole = 1\<rparr>"

text \<open>
  The runtime that goes with it: the clock stands at 1000, \<open>720h\<close> is the one
  duration and \<open>2030-01-01T00:00:00Z\<close> the one instant that parse, an envelope's
  payload is the body itself, and each decoder knows the bodies the platform sends.
\<close>

definition refRuntime :: go_runtime where
  "refRuntime =
     \<lparr>timeNow = 1000,
      ParseDuration = (\<lambda>x. if x = ''720h'' then Inr 2592000 else Inl ''time: invalid duration''),
      ParseRFC3339 =
        (\<lambda>x. if x = ''2030-01-01T00:00:00Z'' then Inr 1893456000 else Inl ''parsing time: cannot parse''),
      FormatRFC3339 = showInt,
      randSource = (\<lambda>i. 7 * i),
      UnmarshalResponse =
        (\<lambda>b. if b = ''{errors:2}''
             then Inr \<lparr>resp_Errors =
                         [\<lparr>err_Code = 4040010, err_Detail = [], err_Title = ''Not Found''\<rparr>,
                          \<lparr>err_Code = 4000010, err_Detail = ''bad filter'', err_Title = ''Bad Request''\<rparr>],
                       resp_NextCursor = [], resp_TotalItems = 0, resp_Data = []\<rparr>
             else Inr \<lparr>resp_Errors = [], resp_NextCursor = [], resp_TotalItems = 0, resp_Data = b\<rparr>),
      UnmarshalAccounts =
        (\<lambda>d. if d = ''[]'' then Inr []
             else if d = ''[acme:active]'' then Inr [acmeObject ''active'']
             else if d = ''[acme:expired]'' then Inr [acmeObject ''expired'']
             else Inl ''json: cannot unmarshal''),
      UnmarshalAccount =
        (\<lambda>d. if d = ''acme:active'' then Inr (acmeObject ''active'') else Inl ''json: cannot unmarshal''),
      UnmarshalUsers =
        (\<lambda>d. if d = ''[]'' then Inr []
             else if d = ''[user]'' then Inr [userObject False]
             else if d = ''[user:member]'' then Inr [userObject True]
             else Inl ''json: cannot unmarshal''),
      UnmarshalUser =
        (\<lambda>d. if d = ''user:member'' then Inr (userObject True) else Inl ''json: cannot unmarshal''),
      UnmarshalRoles =
        (\<lambda>d. if d = ''[]'' then Inr []
             else if d = ''[admin]'' then Inr [adminObject]
             else Inl ''json: cannot unmarshal''),
      UnmarshalSuccess =
        (\<lambda>d. if d = ''success'' then Inr \<lparr>succ_Success = True\<rparr> else Inl ''json: cannot unmarshal'')\<rparr>"

definition acmeRequest :: "string \<Rightarrow> bool \<Rightarrow> S1AccountProvisioningRequest" where
  "acmeRequest expires reactivate =
     \<lparr>areq_AccountName = ''Acme'', areq_AccountType = ''Paid'', areq_Expires = expires,
      areq_ExternalID = ''ext-1'', areq_ReactivateAccount = reactivate, areq_Bundle = ''complete'',
      areq_TotalAgents = 25, areq_Modules = [''star'']\<rparr>"

definition annRequest :: "string \<Rightarrow> S1UserProvisioningRequest" where
  "annRequest role =
     \<lparr>ureq_FirstName = ''Ann'', ureq_LastName = ''Lee'', ureq_EmailAddress = ''ann@acme.test'',
      ureq_Role = role\<rparr>"

definition start :: "string \<Rightarrow> bool option \<Rightarrow> bool \<Rightarrow> platform session" where
  "start acme member admin =
     \<lparr>remote = \<lparr>p_acme = acme, p_member = member, p_admin = admin,
                 p_accountsDown = False, p_rolesDown = False\<rparr>,
      calls = []\<rparr>"

section \<open>Every call is logged, and what each operation sends\<close>

lemma buildRequest_params:
  "buildRequest c m ep [withRequestParams ps] = apiCall c m ep None ps"
  by (simp add: buildRequest_def withRequestParams_def apiCall_def apiURL_def)

lemma buildRequest_body:
  "buildRequest c m ep [withRequestBody b] = apiCall c m ep (Some b) []"
  by (simp add: buildRequest_def withRequestBody_def apiCall_def apiURL_def)

lemma exec_calls:
  "calls (snd (exec c rt m ep fns s)) = calls s @ [buildRequest c m ep fns]"
  by (simp add: exec_def Let_def split: prod.splits http_result.splits sum.splits)

lemma FindAccount_calls:
  "calls (snd (FindAccount c rt n s)) =
     calls s @ [apiCall c ''GET'' ''/accounts'' None [(''name'', n), (''limit'', ''1'')]]"
  using exec_calls [of c rt "''GET''" "''/accounts''" "[withRequestParams [(''name'', n), (''limit'', ''1'')]]" s]
  by (auto simp: FindAccount_def buildRequest_params split: prod.splits sum.splits list.splits)

lemma FindUser_calls:
  "calls (snd (FindUser c rt n s)) =
     calls s @ [apiCall c ''GET'' ''/users'' None [(''email'', n), (''limit'', ''1'')]]"
  using exec_calls [of c rt "''GET''" "''/users''" "[withRequestParams [(''email'', n), (''limit'', ''1'')]]" s]
  by (auto simp: FindUser_def buildRequest_params split: prod.splits sum.splits list.splits)

lemma FindRole_calls:
  "calls (snd (FindRole c rt a n s)) =
     calls s @ [apiCall c ''GET'' ''/rbac/roles'' None [(''accountIds'', a), (''name'', n), (''limit'', ''1'')]]"
  using exec_calls [of c rt "''GET''" "''/rbac/roles''" "[withRequestParams [(''accountIds'', a), (''name'', n), (''limit'', ''1'')]]" s]
  by (auto simp: FindRole_def buildRequest_params split: prod.splits sum.splits list.splits)

lemma ReactivateAccount_calls:
  "calls (snd (ReactivateAccount c rt i e s)) =
     calls s @ [apiCall c ''PUT'' (''/accounts/'' @ i @ ''/reactivate'') (Some (reactivateBody rt e)) []]"
  using exec_calls [of c rt "''PUT''" "''/accounts/'' @ i @ ''/reactivate''" "[withRequestBody (reactivateBody rt e)]" s]
  by (auto simp: ReactivateAccount_def buildRequest_body split: prod.splits sum.splits)

lemma UpdateUserScopeRoles_calls:
  "calls (snd (UpdateUserScopeRoles c rt i rs s)) =
     calls s @ [apiCall c ''PUT'' (''/users/'' @ i) (Some (updateUserBody rs)) []]"
  using exec_calls [of c rt "''PUT''" "''/users/'' @ i" "[withRequestBody (updateUserBody rs)]" s]
  by (auto simp: UpdateUserScopeRoles_def buildRequest_body split: prod.splits sum.splits)

lemma exec_success:
  assumes "client c (remote s) (buildRequest c m ep fns) = (Response code body, w')"
    and "code < 405"
    and "UnmarshalResponse rt body = Inr env"
    and "resp_Errors env = []"
  shows "exec c rt m ep fns s = (Inr env, \<lparr>remote = w', calls = calls s @ [buildRequest c m ep fns]\<rparr>)"
  using assms by (simp add: exec_def Let_def)

lemma configureExpiration_duration:
  "ParseDuration rt (areq_Expires req) = Inr d \<Longrightarrow>
   configureExpiration rt req = Inr (timeNow rt + d)"
  by (simp add: configureExpiration_def)

lemma configureExpiration_instant:
  "ParseDuration rt (areq_Expires req) = Inl x \<Longrightarrow> ParseRFC3339 rt (areq_Expires req) = Inr t \<Longrightarrow>
   configureExpiration rt req = Inr t"
  by (simp add: configureExpiration_def)

lemma configureExpiration_neither:
  "ParseDuration rt (areq_Expires req) = Inl x \<Longrightarrow> ParseRFC3339 rt (areq_Expires req) = Inl err \<Longrightarrow>
   configureExpiration rt req =
     Inl (NewS1ClientError
            (''failed to parse account expiration time and date '' @
             [CHR 0x27] @ areq_Expires req @ [CHR 0x27]) err)"
  by (simp add: configureExpiration_def)

section \<open>The client on the reference platform\<close>

text \<open>
  The definitions unfolded to run the client on the reference platform, and what the
  three lookups return there.
\<close>

lemmas ref_defs = refS1_def refRuntime_def refClient_def start_def acmeRequest_def annRequest_def
  acmeObject_def acmeAccount_def userObject_def annUser_def adminObject_def

lemmas model_defs = FindAccount_def FindUser_def FindRole_def exec_def buildRequest_def apiURL_def
  withRequestParams_def withRequestBody_def fromS1APIAccountObject_def fromS1APIUserObject_def
  fromS1APIRoleObject_def fromS1APIUserScopeRoleObject_def apiCall_def

lemma ref_FindAccount_expired:
  "FindAccount refS1 refRuntime ''Acme'' (start ''expired'' None True) =
     (Inr (Some (acmeAccount ''expired'')),
      \<lparr>remote = remote (start ''expired'' None True),
       calls = [apiCall refS1 ''GET'' ''/accounts'' None [(''name'', ''Acme''), (''limit'', ''1'')]]\<rparr>)"
  by (simp add: ref_defs model_defs)

lemma ref_FindAccount_found:
  assumes "p_acme w = st" and "st = ''active'' \<or> st = ''expired''" and "\<not> p_accountsDown w"
  shows "FindAccount refS1 refRuntime ''Acme'' \<lparr>remote = w, calls = cs\<rparr> =
     (Inr (Some (acmeAccount st)),
      \<lparr>remote = w,
       calls = cs @ [apiCall refS1 ''GET'' ''/accounts'' None [(''name'', ''Acme''), (''limit'', ''1'')]]\<rparr>)"
  using assms by (auto simp: ref_defs model_defs)

lemma ref_FindAccount_none:
  assumes "p_acme w = []" and "\<not> p_accountsDown w"
  shows "FindAccount refS1 refRuntime ''Acme'' \<lparr>remote = w, calls = cs\<rparr> =
     (Inr None,
      \<lparr>remote = w,
       calls = cs @ [apiCall refS1 ''GET'' ''/accounts'' None [(''name'', ''Acme''), (''limit'', ''1'')]]\<rparr>)"
  using assms by (simp add: ref_defs model_defs)

lemma ref_FindAccount_down:
  assumes "p_accountsDown w"
  shows "FindAccount refS1 refRuntime ''Acme'' \<lparr>remote = w, calls = cs\<rparr> =
     (Inl (NewS1ClientRequestError ''GET'' ''https://s1.test/web/api/v2.1/accounts''
             ''failed to execute request'' ''connection refused''),
      \<lparr>remote = w,
       calls = cs @ [apiCall refS1 ''GET'' ''/accounts'' None [(''name'', ''Acme''), (''limit'', ''1'')]]\<rparr>)"
  using assms by (simp add: ref_defs model_defs)

lemma ref_lookup_nothing:
  "FindAccount refS1 refRuntime (areq_AccountName (acmeRequest x r)) (start [] None True) =
     (Inr None,
      \<lparr>remote = remote (start [] None True),
       calls = [apiCall refS1 ''GET'' ''/accounts'' None [(''name'', ''Acme''), (''limit'', ''1'')]]\<rparr>)"
  using ref_FindAccount_none [of "remote (start [] None True)" "[]"]
  by (simp add: start_def acmeRequest_def)

lemma ref_FindUser_found:
  assumes "p_member w = Some b"
  shows "FindUser refS1 refRuntime ''ann@acme.test'' \<lparr>remote = w, calls = cs\<rparr> =
     (Inr (Some (annUser b)),
      \<lparr>remote = w,
       calls = cs @ [apiCall refS1 ''GET'' ''/users'' None [(''email'', ''ann@acme.test''), (''limit'', ''1'')]]\<rparr>)"
  using assms by (cases b) (simp_all add: ref_defs model_defs)

lemma ref_FindUser_none:
  assumes "p_member w = None"
  shows "FindUser refS1 refRuntime ''ann@acme.test'' \<lparr>remote = w, calls = cs\<rparr> =
     (Inr None,
      \<lparr>remote = w,
       calls = cs @ [apiCall refS1 ''GET'' ''/users'' None [(''email'', ''ann@acme.test''), (''limit'', ''1'')]]\<rparr>)"
  using assms by (simp add: ref_defs model_defs)

lemma ref_FindRole:
  assumes "\<not> p_rolesDown w"
  shows "FindRole refS1 refRuntime ''acct-1'' ''Admin'' \<lparr>remote = w, calls = cs\<rparr> =
     (Inr (if p_admin w
           then Some \<lparr>role_AccountName = ''Acme'', role_ID = ''role-9'', role_Name = ''Admin'',
                      role_PredefinedRole = True, role_Scope = ''account'',
                      role_ScopeID = ''acct-1'', role_UsersInRole = 1\<rparr>
           else None),
      \<lparr>remote = w,
       calls = cs @ [apiCall refS1 ''GET'' ''/rbac/roles'' None
                      [(''accountIds'', ''acct-1''), (''name'', ''Admin''), (''limit'', ''1'')]]\<rparr>)"
  using assms by (simp add: ref_defs model_defs)

lemma ref_FindRole_down:
  assumes "p_rolesDown w"
  shows "FindRole refS1 refRuntime ''acct-1'' ''Admin'' \<lparr>remote = w, calls = cs\<rparr> =
     (Inl (NewS1ClientRequestError ''GET'' ''https://s1.test/web/api/v2.1/rbac/roles''
             ''failed to execute request'' ''method is not allowed for endpoint''),
      \<lparr>remote = w,
       calls = cs @ [apiCall refS1 ''GET'' ''/rbac/roles'' None
                      [(''accountIds'', ''acct-1''), (''name'', ''Admin''), (''limit'', ''1'')]]\<rparr>)"
  using assms by (simp add: ref_defs model_defs)

lemma ref_configureExpiration_720h:
  "configureExpiration refRuntime (acmeRequest ''720h'' r) = Inr 2593000"
  by (simp add: configureExpiration_def refRuntime_def acmeRequest_def)

lemma ref_configureExpiration_soon:
  "configureExpiration refRuntime (acmeRequest ''soon'' r) =
     Inl (NewS1ClientError (''failed to parse account expiration time and date '' @ [CHR 0x27] @ ''soon'' @ [CHR 0x27])
            ''parsing time: cannot parse'')"
  by (simp add: configureExpiration_def refRuntime_def acmeRequest_def)

lemma ann_email: "ureq_EmailAddress (annRequest role) = ''ann@acme.test''"
  by (simp add: annRequest_def)

lemma ann_member_roles: "map sr_ScopeID (user_ScopeRoles (annUser True)) = [''acct-0'', ''acct-1'']"
  by (simp add: annUser_def)

lemma ann_other_roles: "map sr_ScopeID (user_ScopeRoles (annUser False)) = [''acct-0'']"
  by (simp add: annUser_def)

lemma ref_find_ann:
  "FindUser refS1 refRuntime (ureq_EmailAddress (annRequest role)) (start st (Some b) adm) =
     (Inr (Some (annUser b)),
      \<lparr>remote = remote (start st (Some b) adm),
       calls = [apiCall refS1 ''GET'' ''/users'' None [(''email'', ''ann@acme.test''), (''limit'', ''1'')]]\<rparr>)"
  unfolding ann_email
  using ref_FindUser_found [of "remote (start st (Some b) adm)" b "[]"] by (simp add: start_def)

lemma ref_find_nobody:
  "FindUser refS1 refRuntime (ureq_EmailAddress (annRequest role)) (start st None adm) =
     (Inr None,
      \<lparr>remote = remote (start st None adm),
       calls = [apiCall refS1 ''GET'' ''/users'' None [(''email'', ''ann@acme.test''), (''limit'', ''1'')]]\<rparr>)"
  unfolding ann_email
  using ref_FindUser_none [of "remote (start st None adm)" "[]"] by (simp add: start_def)

lemma ref_find_role_after:
  "FindRole refS1 refRuntime ''acct-1'' ''Admin''
      \<lparr>remote = remote (start st member adm),
       calls = [apiCall refS1 ''GET'' ''/users'' None [(''email'', ''ann@acme.test''), (''limit'', ''1'')]]\<rparr> =
     (Inr (if adm
           then Some \<lparr>role_AccountName = ''Acme'', role_ID = ''role-9'', role_Name = ''Admin'',
                      role_PredefinedRole = True, role_Scope = ''account'',
                      role_ScopeID = ''acct-1'', role_UsersInRole = 1\<rparr>
           else None),
      \<lparr>remote = remote (start st member adm),
       calls = [apiCall refS1 ''GET'' ''/users'' None [(''email'', ''ann@acme.test''), (''limit'', ''1'')],
                apiCall refS1 ''GET'' ''/rbac/roles'' None
                  [(''accountIds'', ''acct-1''), (''name'', ''Admin''), (''limit'', ''1'')]]\<rparr>)"
  using ref_FindRole [of "remote (start st member adm)"
      "[apiCall refS1 ''GET'' ''/users'' None [(''email'', ''ann@acme.test''), (''limit'', ''1'')]]"]
  by (simp add: start_def)

lemma ref_create_user:
  assumes "rq_method r = ''POST''" and "rq_url r = ''https://s1.test/web/api/v2.1/users''"
  shows "refClient w r = (Response 200 ''user:member'', w\<lparr>p_member := Some True\<rparr>)"
  using assms by (simp add: refClient_def)

lemma ref_exec_create_user:
  "exec refS1 refRuntime ''POST'' ''/users'' [withRequestBody b] \<lparr>remote = w, calls = cs\<rparr> =
     (Inr \<lparr>resp_Errors = [], resp_NextCursor = [], resp_TotalItems = 0, resp_Data = ''user:member''\<rparr>,
      \<lparr>remote = w\<lparr>p_member := Some True\<rparr>,
       calls = cs @ [apiCall refS1 ''POST'' ''/users'' (Some b) []]\<rparr>)"
proof -
  have "exec refS1 refRuntime ''POST'' ''/users'' [withRequestBody b] \<lparr>remote = w, calls = cs\<rparr> =
     (Inr \<lparr>resp_Errors = [], resp_NextCursor = [], resp_TotalItems = 0, resp_Data = ''user:member''\<rparr>,
      \<lparr>remote = w\<lparr>p_member := Some True\<rparr>,
       calls = calls \<lparr>remote = w, calls = cs\<rparr> @ [buildRequest refS1 ''POST'' ''/users'' [withRequestBody b]]\<rparr>)"
    by (rule exec_success [where code = 200 and body = "''user:member''"])
       (simp_all add: refS1_def refRuntime_def ref_create_user buildRequest_def apiURL_def)
  then show ?thesis
    by (simp add: buildRequest_body)
qed

lemma ref_user_object: "fromS1APIUserObject (userObject b) = Inr (annUser b)"
  by (simp add: fromS1APIUserObject_def fromS1APIUserScopeRoleObject_def userObject_def annUser_def)

lemma ref_first_run:
  "CreateAccount refS1 refRuntime (acmeRequest ''720h'' False) (start [] None True) =
     (Inr (acmeAccount ''active''),
      \<lparr>remote = (remote (start [] None True))\<lparr>p_acme := ''active''\<rparr>,
       calls = [apiCall refS1 ''GET'' ''/accounts'' None [(''name'', ''Acme''), (''limit'', ''1'')],
                apiCall refS1 ''POST'' ''/accounts''
                  (Some (createAccountBody refRuntime (acmeRequest ''720h'' False) 2593000)) []]\<rparr>)"
proof -
  have f: "FindAccount refS1 refRuntime ''Acme'' (start [] None True) =
     (Inr None, \<lparr>remote = remote (start [] None True),
       calls = [] @ [apiCall refS1 ''GET'' ''/accounts'' None [(''name'', ''Acme''), (''limit'', ''1'')]]\<rparr>)"
    using ref_FindAccount_none [of "remote (start [] None True)" "[]"] by (simp add: start_def)
  have n: "areq_AccountName (acmeRequest ''720h'' False) = ''Acme''"
    by (simp add: acmeRequest_def)
  show ?thesis
    unfolding CreateAccount_def n f ref_configureExpiration_720h
    by (simp add: ref_defs model_defs)
qed

section \<open>Account reconciliation\<close>

text \<open>
  C1. Whenever the lookup by the request's name finds an account in state \<open>expired\<close>
  and the request does not ask for reactivation, \<open>CreateAccount\<close> returns an error
  and no account, and the session it ends in is the one right after the lookup: the one
  request logged is the account search, so neither a create call nor a reactivation
  call is issued.
\<close>

theorem CreateAccount_expired_without_reactivation:
  assumes "FindAccount c rt (areq_AccountName req) s = (Inr (Some a), s1)"
    and "acct_State a = ''expired''"
    and "\<not> areq_ReactivateAccount req"
  shows "(\<exists>e. CreateAccount c rt req s = (Inl e, s1)) \<and>
         calls s1 = calls s @
           [apiCall c ''GET'' ''/accounts'' None
              [(''name'', areq_AccountName req), (''limit'', ''1'')]]"
proof
  show "\<exists>e. CreateAccount c rt req s = (Inl e, s1)"
    using assms by (simp add: CreateAccount_def split: sum.splits)
  show "calls s1 = calls s @
           [apiCall c ''GET'' ''/accounts'' None
              [(''name'', areq_AccountName req), (''limit'', ''1'')]]"
    using FindAccount_calls [of c rt "areq_AccountName req" s] assms(1) by simp
qed

text \<open>
  On the reference platform: the account is expired, the request says \<open>720h\<close> and no
  reactivation; the run ends in the error, after the search alone.
\<close>

theorem CreateAccount_expired_without_reactivation_witness:
  "fst (CreateAccount refS1 refRuntime (acmeRequest ''720h'' False) (start ''expired'' None True)) =
     Inl (NewS1ClientError
            ''failed to create account because it is expired and not set to be reactivated''
            ''account already exists'') \<and>
   calls (snd (CreateAccount refS1 refRuntime (acmeRequest ''720h'' False) (start ''expired'' None True))) =
     [apiCall refS1 ''GET'' ''/accounts'' None [(''name'', ''Acme''), (''limit'', ''1'')]]"
  using CreateAccount_expired_without_reactivation
    [of refS1 refRuntime "acmeRequest ''720h'' False" "start ''expired'' None True"
        "acmeAccount ''expired''"
        "\<lparr>remote = remote (start ''expired'' None True),
          calls = [apiCall refS1 ''GET'' ''/accounts'' None [(''name'', ''Acme''), (''limit'', ''1'')]]\<rparr>"]
    ref_FindAccount_expired
  by (simp add: CreateAccount_def configureExpiration_def acmeRequest_def acmeAccount_def refRuntime_def)

text \<open>
  C2, as the code has it. Whenever the lookup by the request's name finds an account in
  state \<open>active\<close> and the request's \<open>Expires\<close> string resolves to an expiration
  (as a duration or as an instant), \<open>CreateAccount\<close> returns the account found, as
  found, whatever the resolved expiration is, and the one request logged is the account
  search: no create call, no reactivation call. So a second run with the same input,
  after a first run that created the account, returns the same account after a search
  alone. The expiration is resolved before the state of the account is looked at: a
  request whose \<open>Expires\<close> string does not resolve fails even for an active account.
\<close>

theorem CreateAccount_active_adopted:
  assumes "FindAccount c rt (areq_AccountName req) s = (Inr (Some a), s1)"
    and "acct_State a = ''active''"
    and "configureExpiration rt req = Inr expires"
  shows "CreateAccount c rt req s = (Inr a, s1) \<and>
         calls s1 = calls s @
           [apiCall c ''GET'' ''/accounts'' None
              [(''name'', areq_AccountName req), (''limit'', ''1'')]]"
proof
  show "CreateAccount c rt req s = (Inr a, s1)"
    using assms by (simp add: CreateAccount_def)
  show "calls s1 = calls s @
           [apiCall c ''GET'' ''/accounts'' None
              [(''name'', areq_AccountName req), (''limit'', ''1'')]]"
    using FindAccount_calls [of c rt "areq_AccountName req" s] assms(1) by simp
qed

text \<open>
  Two runs on the reference platform, which starts without the account: the first run
  searches and creates, the second, started where the first ended, returns the same
  account after one more search.
\<close>

theorem CreateAccount_active_adopted_witness:
  "fst (CreateAccount refS1 refRuntime (acmeRequest ''720h'' False) (start [] None True)) =
     Inr (acmeAccount ''active'') \<and>
   calls (snd (CreateAccount refS1 refRuntime (acmeRequest ''720h'' False) (start [] None True))) =
     [apiCall refS1 ''GET'' ''/accounts'' None [(''name'', ''Acme''), (''limit'', ''1'')],
      apiCall refS1 ''POST'' ''/accounts''
        (Some (createAccountBody refRuntime (acmeRequest ''720h'' False) 2593000)) []] \<and>
   fst (CreateAccount refS1 refRuntime (acmeRequest ''720h'' False)
          (snd (CreateAccount refS1 refRuntime (acmeRequest ''720h'' False) (start [] None True)))) =
     Inr (acmeAccount ''active'') \<and>
   calls (snd (CreateAccount refS1 refRuntime (acmeRequest ''720h'' False)
          (snd (CreateAccount refS1 refRuntime (acmeRequest ''720h'' False) (start [] None True))))) =
     calls (snd (CreateAccount refS1 refRuntime (acmeRequest ''720h'' False) (start [] None True))) @
     [apiCall refS1 ''GET'' ''/accounts'' None [(''name'', ''Acme''), (''limit'', ''1'')]]"
proof -
  let ?req = "acmeRequest ''720h'' False"
  let ?lookup = "apiCall refS1 ''GET'' ''/accounts'' None [(''name'', ''Acme''), (''limit'', ''1'')]"
  let ?s1 = "\<lparr>remote = (remote (start [] None True))\<lparr>p_acme := ''active''\<rparr>,
       calls = [?lookup, apiCall refS1 ''POST'' ''/accounts''
                  (Some (createAccountBody refRuntime ?req 2593000)) []]\<rparr>"
  let ?s2 = "\<lparr>remote = (remote (start [] None True))\<lparr>p_acme := ''active''\<rparr>,
       calls = [?lookup, apiCall refS1 ''POST'' ''/accounts''
                  (Some (createAccountBody refRuntime ?req 2593000)) []] @ [?lookup]\<rparr>"
  have n: "areq_AccountName ?req = ''Acme''"
    by (simp add: acmeRequest_def)
  have f: "FindAccount refS1 refRuntime (areq_AccountName ?req) ?s1 = (Inr (Some (acmeAccount ''active'')), ?s2)"
    unfolding n by (rule ref_FindAccount_found) (simp_all add: start_def)
  have a: "acct_State (acmeAccount ''active'') = ''active''"
    by (simp add: acmeAccount_def)
  have "CreateAccount refS1 refRuntime ?req ?s1 = (Inr (acmeAccount ''active''), ?s2)"
    using CreateAccount_active_adopted [OF f a ref_configureExpiration_720h] by (simp add: n)
  then show ?thesis
    by (simp add: ref_first_run)
qed

text \<open>
  C2 as written, for every request, fails: the account is active and found, the
  \<open>Expires\<close> string \<open>soon\<close> does not parse, and \<open>CreateAccount\<close> returns the parse
  error, not the account.
\<close>

theorem CreateAccount_active_unparsable_counterexample:
  "FindAccount refS1 refRuntime (areq_AccountName (acmeRequest ''soon'' False)) (start ''active'' None True) =
     (Inr (Some (acmeAccount ''active'')),
      \<lparr>remote = remote (start ''active'' None True),
       calls = [apiCall refS1 ''GET'' ''/accounts'' None [(''name'', ''Acme''), (''limit'', ''1'')]]\<rparr>) \<and>
   acct_State (acmeAccount ''active'') = ''active'' \<and>
   fst (CreateAccount refS1 refRuntime (acmeRequest ''soon'' False) (start ''active'' None True)) =
     Inl (NewS1ClientError
            (''failed to parse account expiration time and date '' @ [CHR 0x27] @ ''soon'' @ [CHR 0x27])
            ''parsing time: cannot parse'')"
proof -
  have n: "areq_AccountName (acmeRequest ''soon'' False) = ''Acme''"
    by (simp add: acmeRequest_def)
  have f: "FindAccount refS1 refRuntime ''Acme'' (start ''active'' None True) =
     (Inr (Some (acmeAccount ''active'')),
      \<lparr>remote = remote (start ''active'' None True),
       calls = [] @ [apiCall refS1 ''GET'' ''/accounts'' None [(''name'', ''Acme''), (''limit'', ''1'')]]\<rparr>)"
    using ref_FindAccount_found [of "remote (start ''active'' None True)" "''active''" "[]"]
    by (simp add: start_def)
  show ?thesis
    unfolding CreateAccount_def n f ref_configureExpiration_soon
    by (simp add: acmeAccount_def)
qed

text \<open>
  C4, as the code has it. Once the account lookup, which comes first, has returned
  without an error, the \<open>Expires\<close> string is resolved in this order: if it parses as a
  duration the expiration target is the current time plus the duration; otherwise, if
  it parses as an RFC 3339 instant, the target is that instant; otherwise
  \<open>CreateAccount\<close> fails, in the session right after the lookup, with the client
  error whose message quotes the string. The target is the expiration that the next
  call carries (the create call, or the reactivation call).
\<close>

theorem CreateAccount_expiration_precedence:
  assumes "FindAccount c rt (areq_AccountName req) s = (Inr account, s1)"
  shows "(case ParseDuration rt (areq_Expires req) of
            Inr d \<Rightarrow> carriesExpiration c rt req s account s1 (timeNow rt + d)
          | Inl _ \<Rightarrow>
              (case ParseRFC3339 rt (areq_Expires req) of
                 Inr t \<Rightarrow> carriesExpiration c rt req s account s1 t
               | Inl err \<Rightarrow>
                   CreateAccount c rt req s =
                     (Inl (NewS1ClientError
                             (''failed to parse account expiration time and date '' @
                              [CHR 0x27] @ areq_Expires req @ [CHR 0x27]) err), s1)))"
proof -
  have carried: "carriesExpiration c rt req s account s1 expires"
    if "configureExpiration rt req = Inr expires" for expires
  proof (cases account)
    case None
    then show ?thesis
      using assms that
        exec_calls [of c rt "''POST''" "''/accounts''" "[withRequestBody (createAccountBody rt req expires)]" s1]
      by (auto simp: carriesExpiration_def CreateAccount_def buildRequest_body
               split: prod.splits sum.splits)
  next
    case (Some a)
    then show ?thesis
      using assms that ReactivateAccount_calls [of c rt "acct_ID a" expires s1]
      by (auto simp: carriesExpiration_def CreateAccount_def split: prod.splits option.splits)
  qed
  show ?thesis
  proof (cases "ParseDuration rt (areq_Expires req)")
    case (Inr d)
    then show ?thesis
      using carried [OF configureExpiration_duration [OF Inr]] by simp
  next
    case (Inl x)
    show ?thesis
    proof (cases "ParseRFC3339 rt (areq_Expires req)")
      case (Inr t)
      then show ?thesis
        using Inl carried [OF configureExpiration_instant [OF Inl Inr]] by simp
    next
      case Inl2: (Inl err)
      then show ?thesis
        using Inl assms configureExpiration_neither [OF Inl Inl2]
        by (simp add: CreateAccount_def)
    qed
  qed
qed

text \<open>
  On the reference platform, without the account: \<open>720h\<close> creates it with the clock's
  1000 plus 2592000, the instant \<open>2030-01-01T00:00:00Z\<close> with that instant, and
  \<open>soon\<close> fails with the message that quotes it.
\<close>

theorem CreateAccount_expiration_precedence_witness:
  "calls (snd (CreateAccount refS1 refRuntime (acmeRequest ''720h'' False) (start [] None True))) =
     [apiCall refS1 ''GET'' ''/accounts'' None [(''name'', ''Acme''), (''limit'', ''1'')],
      apiCall refS1 ''POST'' ''/accounts''
        (Some (createAccountBody refRuntime (acmeRequest ''720h'' False) (1000 + 2592000))) []] \<and>
   calls (snd (CreateAccount refS1 refRuntime (acmeRequest ''2030-01-01T00:00:00Z'' False)
                 (start [] None True))) =
     [apiCall refS1 ''GET'' ''/accounts'' None [(''name'', ''Acme''), (''limit'', ''1'')],
      apiCall refS1 ''POST'' ''/accounts''
        (Some (createAccountBody refRuntime (acmeRequest ''2030-01-01T00:00:00Z'' False) 1893456000)) []] \<and>
   CreateAccount refS1 refRuntime (acmeRequest ''soon'' False) (start [] None True) =
     (Inl (NewS1ClientError
            (''failed to parse account expiration time and date '' @ [CHR 0x27] @ ''soon'' @ [CHR 0x27])
            ''parsing time: cannot parse''),
      \<lparr>remote = remote (start [] None True),
       calls = [apiCall refS1 ''GET'' ''/accounts'' None [(''name'', ''Acme''), (''limit'', ''1'')]]\<rparr>)"
  using CreateAccount_expiration_precedence [OF ref_lookup_nothing [of "''720h''" False]]
    CreateAccount_expiration_precedence [OF ref_lookup_nothing [of "''2030-01-01T00:00:00Z''" False]]
    CreateAccount_expiration_precedence [OF ref_lookup_nothing [of "''soon''" False]]
  by (simp add: carriesExpiration_def refRuntime_def acmeRequest_def)

text \<open>
  C4 as written, for every request, fails in its last part: when the account search is
  out of service, a request whose \<open>Expires\<close> string parses neither way fails with the
  error of the search (a request error that does not mention the string), not with the
  parse error.
\<close>

theorem CreateAccount_lookup_failure_counterexample:
  "ParseDuration refRuntime (areq_Expires (acmeRequest ''soon'' False)) = Inl ''time: invalid duration'' \<and>
   ParseRFC3339 refRuntime (areq_Expires (acmeRequest ''soon'' False)) = Inl ''parsing time: cannot parse'' \<and>
   fst (CreateAccount refS1 refRuntime (acmeRequest ''soon'' False)
          \<lparr>remote = \<lparr>p_acme = [], p_member = None, p_admin = True,
                      p_accountsDown = True, p_rolesDown = False\<rparr>,
           calls = []\<rparr>) =
     Inl \<lparr>e_code = 102, e_internal = ''connection refused'', e_method = ''GET'',
          e_msg = ''failed to execute request'',
          e_url = ''https://s1.test/web/api/v2.1/accounts''\<rparr>"
proof -
  have f: "FindAccount refS1 refRuntime ''Acme''
      \<lparr>remote = \<lparr>p_acme = [], p_member = None, p_admin = True,
                  p_accountsDown = True, p_rolesDown = False\<rparr>, calls = []\<rparr> =
     (Inl (NewS1ClientRequestError ''GET'' ''https://s1.test/web/api/v2.1/accounts''
             ''failed to execute request'' ''connection refused''),
      \<lparr>remote = \<lparr>p_acme = [], p_member = None, p_admin = True,
                  p_accountsDown = True, p_rolesDown = False\<rparr>,
       calls = [] @ [apiCall refS1 ''GET'' ''/accounts'' None [(''name'', ''Acme''), (''limit'', ''1'')]]\<rparr>)"
    by (rule ref_FindAccount_down) simp
  have n: "areq_AccountName (acmeRequest ''soon'' False) = ''Acme''"
    by (simp add: acmeRequest_def)
  show ?thesis
    unfolding CreateAccount_def n f
    by (simp add: refRuntime_def acmeRequest_def NewS1ClientRequestError_def S1ClientRequestErrorCode_def)
qed

text \<open>
  C5, as the code has it. Whenever the lookup finds an account in state \<open>expired\<close>,
  the request asks for reactivation and its \<open>Expires\<close> string resolves to
  \<open>expires\<close>, \<open>CreateAccount\<close> issues the reactivation call for the account's
  identifier, with \<open>unlimited\<close> false and the expiration \<open>expires\<close> in its body; it
  fails unless the answer reports success, and on success it returns the account as the
  lookup found it (same identifier, state and expiration: nothing is read back from the
  answer). A request whose \<open>Expires\<close> string does not resolve fails before any
  reactivation call.
\<close>

theorem CreateAccount_expired_reactivated:
  assumes "FindAccount c rt (areq_AccountName req) s = (Inr (Some a), s1)"
    and "acct_State a = ''expired''"
    and "areq_ReactivateAccount req"
    and "configureExpiration rt req = Inr expires"
    and "exec c rt ''PUT'' (''/accounts/'' @ acct_ID a @ ''/reactivate'')
           [withRequestBody (reactivateBody rt expires)] s1 = (r, s2)"
  shows "calls s2 = calls s1 @
           [apiCall c ''PUT'' (''/accounts/'' @ acct_ID a @ ''/reactivate'')
              (Some (JObject [(''data'', JObject [(''unlimited'', JBool False),
                 (''expiration'', JString (FormatRFC3339 rt expires))])])) []] \<and>
         (if reportsSuccess rt r then CreateAccount c rt req s = (Inr a, s2)
          else \<exists>e. CreateAccount c rt req s = (Inl e, s2))"
proof
  show "calls s2 = calls s1 @
           [apiCall c ''PUT'' (''/accounts/'' @ acct_ID a @ ''/reactivate'')
              (Some (JObject [(''data'', JObject [(''unlimited'', JBool False),
                 (''expiration'', JString (FormatRFC3339 rt expires))])])) []]"
    using exec_calls [of c rt "''PUT''" "''/accounts/'' @ acct_ID a @ ''/reactivate''"
        "[withRequestBody (reactivateBody rt expires)]" s1] assms(5)
    by (simp add: buildRequest_body reactivateBody_def)
  show "if reportsSuccess rt r then CreateAccount c rt req s = (Inr a, s2)
          else \<exists>e. CreateAccount c rt req s = (Inl e, s2)"
    using assms
    by (auto simp: CreateAccount_def ReactivateAccount_def reportsSuccess_def split: sum.splits)
qed

text \<open>
  On the reference platform: the expired account is reactivated with the expiration
  2593000, and the account returned still says \<open>expired\<close>.
\<close>

theorem CreateAccount_expired_reactivated_witness:
  "fst (CreateAccount refS1 refRuntime (acmeRequest ''720h'' True) (start ''expired'' None True)) =
     Inr (acmeAccount ''expired'') \<and>
   calls (snd (CreateAccount refS1 refRuntime (acmeRequest ''720h'' True) (start ''expired'' None True))) =
     [apiCall refS1 ''GET'' ''/accounts'' None [(''name'', ''Acme''), (''limit'', ''1'')],
      apiCall refS1 ''PUT'' ''/accounts/acct-1/reactivate''
        (Some (JObject [(''data'', JObject [(''unlimited'', JBool False),
                                             (''expiration'', JString ''2593000'')])])) []]"
proof -
  let ?req = "acmeRequest ''720h'' True"
  let ?lookup = "apiCall refS1 ''GET'' ''/accounts'' None [(''name'', ''Acme''), (''limit'', ''1'')]"
  let ?s1 = "\<lparr>remote = remote (start ''expired'' None True), calls = [] @ [?lookup]\<rparr>"
  let ?put = "buildRequest refS1 ''PUT'' (''/accounts/'' @ acct_ID (acmeAccount ''expired'') @ ''/reactivate'')
                [withRequestBody (reactivateBody refRuntime 2593000)]"
  let ?env = "\<lparr>resp_Errors = [], resp_NextCursor = [], resp_TotalItems = 0, resp_Data = ''success''\<rparr>"
  let ?s2 = "\<lparr>remote = (remote (start ''expired'' None True))\<lparr>p_acme := ''active''\<rparr>,
             calls = calls ?s1 @ [?put]\<rparr>"
  have n: "areq_AccountName ?req = ''Acme''"
    by (simp add: acmeRequest_def)
  have f: "FindAccount refS1 refRuntime (areq_AccountName ?req) (start ''expired'' None True) =
             (Inr (Some (acmeAccount ''expired'')), ?s1)"
    unfolding n
    using ref_FindAccount_found [of "remote (start ''expired'' None True)" "''expired''" "[]"]
    by (simp add: start_def)
  have a: "acct_State (acmeAccount ''expired'') = ''expired''"
    by (simp add: acmeAccount_def)
  have r: "areq_ReactivateAccount ?req"
    by (simp add: acmeRequest_def)
  have x: "exec refS1 refRuntime ''PUT'' (''/accounts/'' @ acct_ID (acmeAccount ''expired'') @ ''/reactivate'')
             [withRequestBody (reactivateBody refRuntime 2593000)] ?s1 = (Inr ?env, ?s2)"
    by (rule exec_success [where code = 200 and body = "''success''"])
       (simp_all add: ref_defs model_defs)
  have ok: "reportsSuccess refRuntime (Inr ?env)"
    by (simp add: reportsSuccess_def refRuntime_def)
  have "CreateAccount refS1 refRuntime ?req (start ''expired'' None True) = (Inr (acmeAccount ''expired''), ?s2)"
    using CreateAccount_expired_reactivated [OF f a r ref_configureExpiration_720h x] ok by simp
  then show ?thesis
    by (simp add: buildRequest_body reactivateBody_def refRuntime_def showInt_def acmeAccount_def)
qed

text \<open>
  C5 as written, for every request, fails: the account is expired and found, the
  request asks for reactivation, the \<open>Expires\<close> string \<open>soon\<close> does not parse, and
  the run ends in the parse error after the search alone, with no reactivation call.
\<close>

theorem CreateAccount_expired_unparsable_counterexample:
  "FindAccount refS1 refRuntime (areq_AccountName (acmeRequest ''soon'' True)) (start ''expired'' None True) =
     (Inr (Some (acmeAccount ''expired'')),
      \<lparr>remote = remote (start ''expired'' None True),
       calls = [apiCall refS1 ''GET'' ''/accounts'' None [(''name'', ''Acme''), (''limit'', ''1'')]]\<rparr>) \<and>
   acct_State (acmeAccount ''expired'') = ''expired'' \<and>
   areq_ReactivateAccount (acmeRequest ''soon'' True) \<and>
   CreateAccount refS1 refRuntime (acmeRequest ''soon'' True) (start ''expired'' None True) =
     (Inl (NewS1ClientError
            (''failed to parse account expiration time and date '' @ [CHR 0x27] @ ''soon'' @ [CHR 0x27])
            ''parsing time: cannot parse''),
      \<lparr>remote = remote (start ''expired'' None True),
       calls = [apiCall refS1 ''GET'' ''/accounts'' None [(''name'', ''Acme''), (''limit'', ''1'')]]\<rparr>)"
proof -
  have n: "areq_AccountName (acmeRequest ''soon'' True) = ''Acme''"
    by (simp add: acmeRequest_def)
  have f: "FindAccount refS1 refRuntime ''Acme'' (start ''expired'' None True) =
     (Inr (Some (acmeAccount ''expired'')),
      \<lparr>remote = remote (start ''expired'' None True),
       calls = [] @ [apiCall refS1 ''GET'' ''/accounts'' None [(''name'', ''Acme''), (''limit'', ''1'')]]\<rparr>)"
    using ref_FindAccount_found [of "remote (start ''expired'' None True)" "''expired''" "[]"]
    by (simp add: start_def)
  show ?thesis
    unfolding CreateAccount_def n f ref_configureExpiration_soon
    by (simp add: acmeAccount_def acmeRequest_def)
qed

text \<open>
  C9, as the code has it. \<open>CreateAccount\<close> looks the account up by name before it
  resolves the expiration: for every request whose \<open>Expires\<close> string parses neither
  as a duration nor as an instant, exactly one remote call is issued, the account
  search (no create call, no reactivation call); when the search returns without an
  error the operation fails with the error that quotes the string, and when the search
  fails it fails with the error of the search.
\<close>

theorem CreateAccount_lookup_precedes_validation:
  assumes "ParseDuration rt (areq_Expires req) = Inl x"
    and "ParseRFC3339 rt (areq_Expires req) = Inl err"
  shows "calls (snd (CreateAccount c rt req s)) =
           calls s @ [apiCall c ''GET'' ''/accounts'' None
                        [(''name'', areq_AccountName req), (''limit'', ''1'')]] \<and>
         (case FindAccount c rt (areq_AccountName req) s of
            (Inl e, s1) \<Rightarrow> CreateAccount c rt req s = (Inl e, s1)
          | (Inr account, s1) \<Rightarrow>
              CreateAccount c rt req s =
                (Inl (NewS1ClientError
                        (''failed to parse account expiration time and date '' @
                         [CHR 0x27] @ areq_Expires req @ [CHR 0x27]) err), s1))"
proof -
  obtain r s1 where f: "FindAccount c rt (areq_AccountName req) s = (r, s1)"
    by (cases "FindAccount c rt (areq_AccountName req) s")
  have c1: "calls s1 = calls s @ [apiCall c ''GET'' ''/accounts'' None
                        [(''name'', areq_AccountName req), (''limit'', ''1'')]]"
    using FindAccount_calls [of c rt "areq_AccountName req" s] f by simp
  show ?thesis
  proof (cases r)
    case (Inl e)
    then show ?thesis
      using f c1 by (simp add: CreateAccount_def)
  next
    case (Inr account)
    then show ?thesis
      using f c1 configureExpiration_neither [OF assms]
      by (simp add: CreateAccount_def)
  qed
qed

text \<open>
  On the reference platform, with an active account and the string \<open>never\<close>.
\<close>

theorem CreateAccount_lookup_precedes_validation_witness:
  "CreateAccount refS1 refRuntime (acmeRequest ''never'' True) (start ''active'' None True) =
     (Inl (NewS1ClientError
            (''failed to parse account expiration time and date '' @ [CHR 0x27] @ ''never'' @ [CHR 0x27])
            ''parsing time: cannot parse''),
      \<lparr>remote = remote (start ''active'' None True),
       calls = [apiCall refS1 ''GET'' ''/accounts'' None [(''name'', ''Acme''), (''limit'', ''1'')]]\<rparr>)"
proof -
  have d: "ParseDuration refRuntime (areq_Expires (acmeRequest ''never'' True)) = Inl ''time: invalid duration''"
    by (simp add: refRuntime_def acmeRequest_def)
  have p: "ParseRFC3339 refRuntime (areq_Expires (acmeRequest ''never'' True)) = Inl ''parsing time: cannot parse''"
    by (simp add: refRuntime_def acmeRequest_def)
  have f: "FindAccount refS1 refRuntime (areq_AccountName (acmeRequest ''never'' True)) (start ''active'' None True) =
     (Inr (Some (acmeAccount ''active'')),
      \<lparr>remote = remote (start ''active'' None True),
       calls = [apiCall refS1 ''GET'' ''/accounts'' None [(''name'', ''Acme''), (''limit'', ''1'')]]\<rparr>)"
    using ref_FindAccount_found [of "remote (start ''active'' None True)" "''active''" "[]"]
    by (simp add: start_def acmeRequest_def)
  show ?thesis
    using CreateAccount_lookup_precedes_validation [OF d p, of refS1 "start ''active'' None True"]
    by (simp add: f) (simp add: acmeRequest_def)
qed

text \<open>
  C9 as written fails: the \<open>Expires\<close> string \<open>soon\<close> parses neither way, and the
  account search has been sent by the time the operation fails.
\<close>

theorem CreateAccount_validation_after_lookup_counterexample:
  "ParseDuration refRuntime (areq_Expires (acmeRequest ''soon'' False)) = Inl ''time: invalid duration'' \<and>
   ParseRFC3339 refRuntime (areq_Expires (acmeRequest ''soon'' False)) = Inl ''parsing time: cannot parse'' \<and>
   calls (snd (CreateAccount refS1 refRuntime (acmeRequest ''soon'' False) (start [] None True))) =
     [\<lparr>rq_method = ''GET'', rq_url = ''https://s1.test/web/api/v2.1/accounts'',
       rq_headers = [(''Content-Type'', ''application/json''), (''Accept'', ''application/json''),
                     (''Authorization'', ''ApiToken k'')],
       rq_body = None, rq_params = [(''name'', ''Acme''), (''limit'', ''1'')]\<rparr>]"
  unfolding CreateAccount_def ref_lookup_nothing ref_configureExpiration_soon
  by (simp add: refRuntime_def acmeRequest_def apiCall_def refS1_def)

section \<open>User reconciliation\<close>

text \<open>
  C3, as the code has it. Whenever the lookup by the request's email address finds a
  user whose scope roles already have an entry for the target account, \<open>CreateUser\<close>
  issues the user search and the search for the \<open>Admin\<close> role and nothing else: no
  update call and no create call, so the user gains no second entry for the account. It
  returns the user found, unchanged, provided the role search returns without an error
  (whether or not it finds the role); when the role search fails, \<open>CreateUser\<close> fails
  with its error.
\<close>

theorem CreateUser_existing_member:
  assumes "FindUser c rt (ureq_EmailAddress req) s = (Inr (Some u), s1)"
    and "accountID \<in> set (map sr_ScopeID (user_ScopeRoles u))"
  shows "calls (snd (CreateUser c rt req accountID s)) =
           calls s @
           [apiCall c ''GET'' ''/users'' None [(''email'', ureq_EmailAddress req), (''limit'', ''1'')],
            apiCall c ''GET'' ''/rbac/roles'' None
              [(''accountIds'', accountID), (''name'', ''Admin''), (''limit'', ''1'')]] \<and>
         (case FindRole c rt accountID ''Admin'' s1 of
            (Inl e, s2) \<Rightarrow> CreateUser c rt req accountID s = (Failed e, s2)
          | (Inr adminRole, s2) \<Rightarrow> CreateUser c rt req accountID s = (Returned u, s2))"
proof -
  obtain r s2 where f: "FindRole c rt accountID ''Admin'' s1 = (r, s2)"
    by (cases "FindRole c rt accountID ''Admin'' s1")
  have c1: "calls s1 = calls s @
      [apiCall c ''GET'' ''/users'' None [(''email'', ureq_EmailAddress req), (''limit'', ''1'')]]"
    using FindUser_calls [of c rt "ureq_EmailAddress req" s] assms(1) by simp
  have c2: "calls s2 = calls s1 @
      [apiCall c ''GET'' ''/rbac/roles'' None
         [(''accountIds'', accountID), (''name'', ''Admin''), (''limit'', ''1'')]]"
    using FindRole_calls [of c rt accountID "''Admin''" s1] f by simp
  have m: "list_ex (\<lambda>role. sr_ScopeID role = accountID) (user_ScopeRoles u)"
    using assms(2) by (auto simp: list_ex_iff)
  show ?thesis
  proof (cases r)
    case (Inl e)
    then show ?thesis
      using assms(1) f c1 c2 by (simp add: CreateUser_def)
  next
    case (Inr adminRole)
    then show ?thesis
      using assms(1) f c1 c2 m by (simp add: CreateUser_def)
  qed
qed

text \<open>
  On the reference platform: the user is already bound to \<open>acct-1\<close>.
\<close>

theorem CreateUser_existing_member_witness:
  "CreateUser refS1 refRuntime (annRequest ''Viewer'') ''acct-1'' (start ''active'' (Some True) True) =
     (Returned (annUser True),
      \<lparr>remote = remote (start ''active'' (Some True) True),
       calls = [apiCall refS1 ''GET'' ''/users'' None [(''email'', ''ann@acme.test''), (''limit'', ''1'')],
                apiCall refS1 ''GET'' ''/rbac/roles'' None
                  [(''accountIds'', ''acct-1''), (''name'', ''Admin''), (''limit'', ''1'')]]\<rparr>)"
proof -
  let ?s = "start ''active'' (Some True) True"
  let ?s1 = "\<lparr>remote = remote ?s,
       calls = [apiCall refS1 ''GET'' ''/users'' None [(''email'', ''ann@acme.test''), (''limit'', ''1'')]]\<rparr>"
  have fu: "FindUser refS1 refRuntime (ureq_EmailAddress (annRequest ''Viewer'')) ?s = (Inr (Some (annUser True)), ?s1)"
    unfolding ann_email
    using ref_FindUser_found [of "remote ?s" True "[]"] by (simp add: start_def)
  have mem: "''acct-1'' \<in> set (map sr_ScopeID (user_ScopeRoles (annUser True)))"
    by (simp add: ann_member_roles)
  have fr: "FindRole refS1 refRuntime ''acct-1'' ''Admin'' ?s1 =
     (Inr (Some \<lparr>role_AccountName = ''Acme'', role_ID = ''role-9'', role_Name = ''Admin'',
                      role_PredefinedRole = True, role_Scope = ''account'',
                      role_ScopeID = ''acct-1'', role_UsersInRole = 1\<rparr>),
      \<lparr>remote = remote ?s,
       calls = [apiCall refS1 ''GET'' ''/users'' None [(''email'', ''ann@acme.test''), (''limit'', ''1'')]] @
               [apiCall refS1 ''GET'' ''/rbac/roles'' None
                      [(''accountIds'', ''acct-1''), (''name'', ''Admin''), (''limit'', ''1'')]]\<rparr>)"
    using ref_FindRole [of "remote ?s"] by (simp add: start_def)
  show ?thesis
    using CreateUser_existing_member [OF fu mem] by (simp add: fr)
qed

text \<open>
  C3 as written fails: the user exists and is bound to the account, the role search is
  out of service, and \<open>CreateUser\<close> returns the error of the role search, not the user.
\<close>

theorem CreateUser_role_lookup_failure_counterexample:
  "FindUser refS1 refRuntime (ureq_EmailAddress (annRequest ''Admin''))
       \<lparr>remote = \<lparr>p_acme = ''active'', p_member = Some True, p_admin = True,
                   p_accountsDown = False, p_rolesDown = True\<rparr>, calls = []\<rparr> =
     (Inr (Some (annUser True)),
      \<lparr>remote = \<lparr>p_acme = ''active'', p_member = Some True, p_admin = True,
                  p_accountsDown = False, p_rolesDown = True\<rparr>,
       calls = [apiCall refS1 ''GET'' ''/users'' None [(''email'', ''ann@acme.test''), (''limit'', ''1'')]]\<rparr>) \<and>
   ''acct-1'' \<in> set (map sr_ScopeID (user_ScopeRoles (annUser True))) \<and>
   fst (CreateUser refS1 refRuntime (annRequest ''Admin'') ''acct-1''
       \<lparr>remote = \<lparr>p_acme = ''active'', p_member = Some True, p_admin = True,
                   p_accountsDown = False, p_rolesDown = True\<rparr>, calls = []\<rparr>) =
     Failed \<lparr>e_code = 102, e_internal = ''method is not allowed for endpoint'', e_method = ''GET'',
             e_msg = ''failed to execute request'',
             e_url = ''https://s1.test/web/api/v2.1/rbac/roles''\<rparr>"
proof -
  let ?w = "\<lparr>p_acme = ''active'', p_member = Some True, p_admin = True,
                   p_accountsDown = False, p_rolesDown = True\<rparr>"
  have fu: "FindUser refS1 refRuntime ''ann@acme.test'' \<lparr>remote = ?w, calls = []\<rparr> =
     (Inr (Some (annUser True)),
      \<lparr>remote = ?w,
       calls = [apiCall refS1 ''GET'' ''/users'' None [(''email'', ''ann@acme.test''), (''limit'', ''1'')]]\<rparr>)"
    using ref_FindUser_found [of ?w True "[]"] by simp
  have fr: "FindRole refS1 refRuntime ''acct-1'' ''Admin''
       \<lparr>remote = ?w, calls = [apiCall refS1 ''GET'' ''/users'' None [(''email'', ''ann@acme.test''), (''limit'', ''1'')]]\<rparr> =
     (Inl (NewS1ClientRequestError ''GET'' ''https://s1.test/web/api/v2.1/rbac/roles''
             ''failed to execute request'' ''method is not allowed for endpoint''),
      \<lparr>remote = ?w,
       calls = [apiCall refS1 ''GET'' ''/users'' None [(''email'', ''ann@acme.test''), (''limit'', ''1'')]] @
          [apiCall refS1 ''GET'' ''/rbac/roles'' None
                      [(''accountIds'', ''acct-1''), (''name'', ''Admin''), (''limit'', ''1'')]]\<rparr>)"
    by (rule ref_FindRole_down) simp
  show ?thesis
    unfolding CreateUser_def ann_email fu
    by (simp add: fr ann_member_roles NewS1ClientRequestError_def S1ClientRequestErrorCode_def)
qed

text \<open>
  What becomes of an existing user who has no entry for the target account when the
  \<open>Admin\<close> role does not exist: the role pointer is nil and reading its identifier
  panics.
\<close>

lemma CreateUser_nil_role_dereference:
  assumes "FindUser c rt (ureq_EmailAddress req) s = (Inr (Some u), s1)"
    and "accountID \<notin> set (map sr_ScopeID (user_ScopeRoles u))"
    and "FindRole c rt accountID ''Admin'' s1 = (Inr None, s2)"
  shows "CreateUser c rt req accountID s = (Panicked, s2)"
proof -
  have "\<not> list_ex (\<lambda>role. sr_ScopeID role = accountID) (user_ScopeRoles u)"
    using assms(2) by (auto simp: list_ex_iff)
  then show ?thesis
    using assms(1,3) by (simp add: CreateUser_def)
qed

text \<open>
  C6, as the code has it. When the search for the \<open>Admin\<close> role reports that the role
  does not exist (no role and no error), \<open>CreateUser\<close> does not fail for that reason:
  for a user who already has an entry for the target account it returns the user
  unchanged, and for an email address with no user it does not panic and returns the
  created user whenever the create call succeeds and its payload decodes.
\<close>

theorem CreateUser_admin_role_absent:
  assumes "FindUser c rt (ureq_EmailAddress req) s = (Inr user, s1)"
    and "FindRole c rt accountID ''Admin'' s1 = (Inr None, s2)"
  shows "(case user of
            Some u \<Rightarrow>
              accountID \<in> set (map sr_ScopeID (user_ScopeRoles u)) \<longrightarrow>
              CreateUser c rt req accountID s = (Returned u, s2)
          | None \<Rightarrow>
              fst (CreateUser c rt req accountID s) \<noteq> Panicked \<and>
              (\<forall>resp s3 newUser.
                 exec c rt ''POST'' ''/users''
                   [withRequestBody (createUserBody req accountID (generatePassword rt))] s2 =
                   (Inr resp, s3) \<and>
                 UnmarshalUser rt (resp_Data resp) = Inr newUser \<longrightarrow>
                 (\<exists>nu. fromS1APIUserObject newUser = Inr nu \<and>
                       CreateUser c rt req accountID s = (Returned nu, s3))))"
proof (cases user)
  case None
  have "fst (CreateUser c rt req accountID s) \<noteq> Panicked"
    using assms None
    by (auto simp: CreateUser_def fromS1APIUserObject_def split: prod.splits sum.splits)
  moreover have "\<exists>nu. fromS1APIUserObject newUser = Inr nu \<and>
                       CreateUser c rt req accountID s = (Returned nu, s3)"
    if "exec c rt ''POST'' ''/users''
          [withRequestBody (createUserBody req accountID (generatePassword rt))] s2 = (Inr resp, s3)"
      and "UnmarshalUser rt (resp_Data resp) = Inr newUser" for resp s3 newUser
    using assms None that by (simp add: CreateUser_def fromS1APIUserObject_def)
  ultimately show ?thesis
    using None by simp
next
  case (Some u)
  have "CreateUser c rt req accountID s = (Returned u, s2)"
    if "accountID \<in> set (map sr_ScopeID (user_ScopeRoles u))"
  proof -
    have "list_ex (\<lambda>role. sr_ScopeID role = accountID) (user_ScopeRoles u)"
      using that by (auto simp: list_ex_iff)
    then show ?thesis
      using assms Some by (simp add: CreateUser_def)
  qed
  then show ?thesis
    using Some by simp
qed

text \<open>
  On the reference platform without the role: the member is returned, and creating the
  user does not panic.
\<close>

theorem CreateUser_admin_role_absent_witness:
  "CreateUser refS1 refRuntime (annRequest ''Viewer'') ''acct-1'' (start ''active'' (Some True) False) =
     (Returned (annUser True),
      \<lparr>remote = remote (start ''active'' (Some True) False),
       calls = [apiCall refS1 ''GET'' ''/users'' None [(''email'', ''ann@acme.test''), (''limit'', ''1'')],
                apiCall refS1 ''GET'' ''/rbac/roles'' None
                  [(''accountIds'', ''acct-1''), (''name'', ''Admin''), (''limit'', ''1'')]]\<rparr>) \<and>
   fst (CreateUser refS1 refRuntime (annRequest ''Viewer'') ''acct-1'' (start ''active'' None False)) \<noteq> Panicked"
proof -
  let ?s = "start ''active'' (Some True) False"
  have fu: "FindUser refS1 refRuntime (ureq_EmailAddress (annRequest ''Viewer'')) ?s =
     (Inr (Some (annUser True)),
      \<lparr>remote = remote ?s,
       calls = [apiCall refS1 ''GET'' ''/users'' None [(''email'', ''ann@acme.test''), (''limit'', ''1'')]]\<rparr>)"
    unfolding ann_email
    using ref_FindUser_found [of "remote ?s" True "[]"] by (simp add: start_def)
  have fr: "FindRole refS1 refRuntime ''acct-1'' ''Admin''
      \<lparr>remote = remote ?s,
       calls = [apiCall refS1 ''GET'' ''/users'' None [(''email'', ''ann@acme.test''), (''limit'', ''1'')]]\<rparr> =
     (Inr None,
      \<lparr>remote = remote ?s,
       calls = [apiCall refS1 ''GET'' ''/users'' None [(''email'', ''ann@acme.test''), (''limit'', ''1'')],
                apiCall refS1 ''GET'' ''/rbac/roles'' None
                  [(''accountIds'', ''acct-1''), (''name'', ''Admin''), (''limit'', ''1'')]]\<rparr>)"
    using ref_find_role_after [of "''active''" "Some True" False] by simp
  have fr': "FindRole refS1 refRuntime ''acct-1'' ''Admin''
      \<lparr>remote = remote (start ''active'' None False),
       calls = [apiCall refS1 ''GET'' ''/users'' None [(''email'', ''ann@acme.test''), (''limit'', ''1'')]]\<rparr> =
     (Inr None,
      \<lparr>remote = remote (start ''active'' None False),
       calls = [apiCall refS1 ''GET'' ''/users'' None [(''email'', ''ann@acme.test''), (''limit'', ''1'')],
                apiCall refS1 ''GET'' ''/rbac/roles'' None
                  [(''accountIds'', ''acct-1''), (''name'', ''Admin''), (''limit'', ''1'')]]\<rparr>)"
    using ref_find_role_after [of "''active''" None False] by simp
  show ?thesis
    using CreateUser_admin_role_absent [OF fu fr]
      CreateUser_admin_role_absent [OF ref_find_nobody [of "''Viewer''" "''active''" False] fr']
    by (simp add: ann_member_roles)
qed

text \<open>
  C6 as written fails: the role search reports that \<open>Admin\<close> does not exist, no user
  has the email address, and \<open>CreateUser\<close> creates the user and returns it.
\<close>

theorem CreateUser_without_admin_role_counterexample:
  "FindRole refS1 refRuntime ''acct-1'' ''Admin''
      (snd (FindUser refS1 refRuntime (ureq_EmailAddress (annRequest ''Viewer''))
              (start ''active'' None False))) =
     (Inr None,
      \<lparr>remote = remote (start ''active'' None False),
       calls = [apiCall refS1 ''GET'' ''/users'' None [(''email'', ''ann@acme.test''), (''limit'', ''1'')],
                apiCall refS1 ''GET'' ''/rbac/roles'' None
                  [(''accountIds'', ''acct-1''), (''name'', ''Admin''), (''limit'', ''1'')]]\<rparr>) \<and>
   fst (CreateUser refS1 refRuntime (annRequest ''Viewer'') ''acct-1'' (start ''active'' None False)) =
     Returned (annUser True)"
proof -
  have fr: "FindRole refS1 refRuntime ''acct-1'' ''Admin''
      \<lparr>remote = remote (start ''active'' None False),
       calls = [apiCall refS1 ''GET'' ''/users'' None [(''email'', ''ann@acme.test''), (''limit'', ''1'')]]\<rparr> =
     (Inr None,
      \<lparr>remote = remote (start ''active'' None False),
       calls = [apiCall refS1 ''GET'' ''/users'' None [(''email'', ''ann@acme.test''), (''limit'', ''1'')],
                apiCall refS1 ''GET'' ''/rbac/roles'' None
                  [(''accountIds'', ''acct-1''), (''name'', ''Admin''), (''limit'', ''1'')]]\<rparr>)"
    using ref_find_role_after [of "''active''" None False] by simp
  have um: "UnmarshalUser refRuntime ''user:member'' = Inr (userObject True)"
    by (simp add: refRuntime_def)
  show ?thesis
    unfolding CreateUser_def ref_find_nobody
    by (simp add: fr ref_exec_create_user um ref_user_object)
qed

text \<open>
  C7. After a user lookup that returned without an error, every call that follows the
  search for the \<open>Admin\<close> role is described. For an existing user with no entry for
  the target account and an \<open>Admin\<close> role found, it is the update call, and it
  carries the user's scope roles followed by one new entry with the target account and
  the identifier and name of the role found, whatever role the request names. For an
  email address with no user, it is the create call, and it carries the email address,
  the generated password, the full name (first name, one space, last name), the scope
  \<open>account\<close>, exactly one scope-role entry with the target account and the role
  the request names, and \<open>twoFaEnabled\<close> true. In every other case (the role search
  failed, the user already has an entry, or the role was not found for an existing
  user) no call follows.
\<close>

theorem CreateUser_role_of_the_binding:
  assumes "FindUser c rt (ureq_EmailAddress req) s = (Inr user, s1)"
  shows "(case FindRole c rt accountID ''Admin'' s1 of
            (Inl e, s2) \<Rightarrow> calls (snd (CreateUser c rt req accountID s)) = calls s2
          | (Inr adminRole, s2) \<Rightarrow>
              (case user of
                 Some u \<Rightarrow>
                   (if accountID \<in> set (map sr_ScopeID (user_ScopeRoles u))
                    then calls (snd (CreateUser c rt req accountID s)) = calls s2
                    else
                      (case adminRole of
                         None \<Rightarrow> calls (snd (CreateUser c rt req accountID s)) = calls s2
                       | Some ar \<Rightarrow>
                           calls (snd (CreateUser c rt req accountID s)) =
                             calls s2 @
                             [apiCall c ''PUT'' (''/users/'' @ user_ID u)
                                (Some (JObject [(''data'', JObject
                                   [(''scope'', JString ''account''),
                                    (''scopeRoles'',
                                     JArray (map scopeRoleJSON (user_ScopeRoles u) @
                                             [JObject [(''id'', JString accountID),
                                                       (''roleId'', JString (role_ID ar)),
                                                       (''roleName'', JString (role_Name ar))]]))])])) []]))
               | None \<Rightarrow>
                   calls (snd (CreateUser c rt req accountID s)) =
                     calls s2 @
                     [apiCall c ''POST'' ''/users''
                        (Some (JObject [(''data'', JObject
                           [(''email'', JString (ureq_EmailAddress req)),
                            (''password'', JString (generatePassword rt)),
                            (''fullName'', JString (ureq_FirstName req @ '' '' @ ureq_LastName req)),
                            (''scope'', JString ''account''),
                            (''scopeRoles'',
                             JArray [JObject [(''id'', JString accountID),
                                              (''roleName'', JString (ureq_Role req))]]),
                            (''twoFaEnabled'', JBool True)])])) []]))"
proof -
  obtain r s2 where f: "FindRole c rt accountID ''Admin'' s1 = (r, s2)"
    by (cases "FindRole c rt accountID ''Admin'' s1")
  show ?thesis
  proof (cases r)
    case (Inl e)
    then show ?thesis
      using assms f by (simp add: CreateUser_def)
  next
    case (Inr adminRole)
    show ?thesis
    proof (cases user)
      case None
      then show ?thesis
        using assms f Inr
          exec_calls [of c rt "''POST''" "''/users''"
            "[withRequestBody (createUserBody req accountID (generatePassword rt))]" s2]
        by (auto simp: CreateUser_def buildRequest_body createUserBody_def
                 split: prod.splits sum.splits)
    next
      case (Some u)
      have m: "list_ex (\<lambda>role. sr_ScopeID role = accountID) (user_ScopeRoles u) \<longleftrightarrow>
               accountID \<in> set (map sr_ScopeID (user_ScopeRoles u))"
        by (auto simp: list_ex_iff)
      show ?thesis
      proof (cases "accountID \<in> set (map sr_ScopeID (user_ScopeRoles u))")
        case True
        then show ?thesis
          using assms f Inr Some m by (simp add: CreateUser_def)
      next
        case False
        show ?thesis
        proof (cases adminRole)
          case None
          then show ?thesis
            using assms f Inr Some m False by (simp add: CreateUser_def)
        next
          case ar: (Some ar)
          have "calls (snd (CreateUser c rt req accountID s)) =
                  calls s2 @
                  [apiCall c ''PUT'' (''/users/'' @ user_ID u)
                     (Some (updateUserBody (user_ScopeRoles u @
                        [\<lparr>sr_ScopeID = accountID, sr_RoleID = role_ID ar,
                          sr_RoleName = role_Name ar\<rparr>]))) []]"
            using assms f Inr Some m False ar
              UpdateUserScopeRoles_calls [of c rt "user_ID u"
                "user_ScopeRoles u @
                   [\<lparr>sr_ScopeID = accountID, sr_RoleID = role_ID ar, sr_RoleName = role_Name ar\<rparr>]" s2]
            by (auto simp: CreateUser_def split: prod.splits sum.splits)
          then show ?thesis
            using f Inr Some False ar by (simp add: updateUserBody_def scopeRoleJSON_def)
        qed
      qed
    qed
  qed
qed

text \<open>
  On the reference platform, with a request that names the role \<open>Viewer\<close>: the
  existing user is bound as \<open>Admin\<close>, the new user is created as \<open>Viewer\<close>.
\<close>

theorem CreateUser_role_of_the_binding_witness:
  "calls (snd (CreateUser refS1 refRuntime (annRequest ''Viewer'') ''acct-1''
                 (start ''active'' (Some False) True))) =
     [apiCall refS1 ''GET'' ''/users'' None [(''email'', ''ann@acme.test''), (''limit'', ''1'')],
      apiCall refS1 ''GET'' ''/rbac/roles'' None
        [(''accountIds'', ''acct-1''), (''name'', ''Admin''), (''limit'', ''1'')],
      apiCall refS1 ''PUT'' ''/users/user-1''
        (Some (JObject [(''data'', JObject
           [(''scope'', JString ''account''),
            (''scopeRoles'',
             JArray [JObject [(''id'', JString ''acct-0''), (''roleId'', JString ''role-3''),
                              (''roleName'', JString ''Viewer'')],
                     JObject [(''id'', JString ''acct-1''), (''roleId'', JString ''role-9''),
                              (''roleName'', JString ''Admin'')]])])])) []] \<and>
   calls (snd (CreateUser refS1 refRuntime (annRequest ''Viewer'') ''acct-1''
                 (start ''active'' None True))) =
     [apiCall refS1 ''GET'' ''/users'' None [(''email'', ''ann@acme.test''), (''limit'', ''1'')],
      apiCall refS1 ''GET'' ''/rbac/roles'' None
        [(''accountIds'', ''acct-1''), (''name'', ''Admin''), (''limit'', ''1'')],
      apiCall refS1 ''POST'' ''/users''
        (Some (JObject [(''data'', JObject
           [(''email'', JString ''ann@acme.test''),
            (''password'', JString (generatePassword refRuntime)),
            (''fullName'', JString ''Ann Lee''),
            (''scope'', JString ''account''),
            (''scopeRoles'',
             JArray [JObject [(''id'', JString ''acct-1''), (''roleName'', JString ''Viewer'')]]),
            (''twoFaEnabled'', JBool True)])])) []]"
proof -
  have a: "calls (snd (CreateUser refS1 refRuntime (annRequest ''Viewer'') ''acct-1''
                 (start ''active'' (Some False) True))) =
     [apiCall refS1 ''GET'' ''/users'' None [(''email'', ''ann@acme.test''), (''limit'', ''1'')],
      apiCall refS1 ''GET'' ''/rbac/roles'' None
        [(''accountIds'', ''acct-1''), (''name'', ''Admin''), (''limit'', ''1'')],
      apiCall refS1 ''PUT'' ''/users/user-1''
        (Some (JObject [(''data'', JObject
           [(''scope'', JString ''account''),
            (''scopeRoles'',
             JArray [JObject [(''id'', JString ''acct-0''), (''roleId'', JString ''role-3''),
                              (''roleName'', JString ''Viewer'')],
                     JObject [(''id'', JString ''acct-1''), (''roleId'', JString ''role-9''),
                              (''roleName'', JString ''Admin'')]])])])) []]"
    using CreateUser_role_of_the_binding
      [OF ref_find_ann [of "''Viewer''" "''active''" False True], of "''acct-1''"]
    by (simp add: ref_find_role_after ann_other_roles) (simp add: annUser_def scopeRoleJSON_def)
  have b: "calls (snd (CreateUser refS1 refRuntime (annRequest ''Viewer'') ''acct-1''
                 (start ''active'' None True))) =
     [apiCall refS1 ''GET'' ''/users'' None [(''email'', ''ann@acme.test''), (''limit'', ''1'')],
      apiCall refS1 ''GET'' ''/rbac/roles'' None
        [(''accountIds'', ''acct-1''), (''name'', ''Admin''), (''limit'', ''1'')],
      apiCall refS1 ''POST'' ''/users''
        (Some (JObject [(''data'', JObject
           [(''email'', JString ''ann@acme.test''),
            (''password'', JString (generatePassword refRuntime)),
            (''fullName'', JString ''Ann Lee''),
            (''scope'', JString ''account''),
            (''scopeRoles'',
             JArray [JObject [(''id'', JString ''acct-1''), (''roleName'', JString ''Viewer'')]]),
            (''twoFaEnabled'', JBool True)])])) []]"
    using CreateUser_role_of_the_binding
      [OF ref_find_nobody [of "''Viewer''" "''active''" True], of "''acct-1''"]
    by (simp add: ref_find_role_after) (simp add: annRequest_def)
  show ?thesis
    using a b by simp
qed

section \<open>The envelope and the lookups\<close>

text \<open>
  C8. Whenever the response to a call decodes to an envelope whose error list is not
  empty, \<open>exec\<close> fails with one error built from fixed text, whatever the status code:
  the error of the envelope check for a status below 405 (a successful status with two
  platform errors is a failed call), the error of the status check from 405 on. None
  of the platform's errors is in the result. And \<open>exec\<close> returns an envelope only if
  its error list is empty.
\<close>

theorem exec_envelope_errors:
  "(\<forall>httpCode body w' envelope.
      client c (remote s) (buildRequest c method endpoint optFns) = (Response httpCode body, w') \<and>
      UnmarshalResponse rt body = Inr envelope \<and> resp_Errors envelope \<noteq> [] \<longrightarrow>
      fst (exec c rt method endpoint optFns s) =
        Inl (if httpCode \<ge> 405
             then NewS1ClientRequestError method (baseURL c @ ''/web/api/v2.1'' @ endpoint)
                    ''failed to execute request'' ''method is not allowed for endpoint''
             else NewS1ClientRequestError method (baseURL c @ ''/web/api/v2.1'' @ endpoint)
                    ''server returned one or more API errors''
                    ''server returned one or more API errors'')) \<and>
   (\<forall>r s'. exec c rt method endpoint optFns s = (Inr r, s') \<longrightarrow> resp_Errors r = [])"
proof (intro conjI allI impI)
  fix httpCode body w' envelope
  assume "client c (remote s) (buildRequest c method endpoint optFns) = (Response httpCode body, w') \<and>
      UnmarshalResponse rt body = Inr envelope \<and> resp_Errors envelope \<noteq> []"
  then show "fst (exec c rt method endpoint optFns s) =
        Inl (if httpCode \<ge> 405
             then NewS1ClientRequestError method (baseURL c @ ''/web/api/v2.1'' @ endpoint)
                    ''failed to execute request'' ''method is not allowed for endpoint''
             else NewS1ClientRequestError method (baseURL c @ ''/web/api/v2.1'' @ endpoint)
                    ''server returned one or more API errors''
                    ''server returned one or more API errors'')"
    by (simp add: exec_def apiURL_def)
next
  fix r s'
  assume "exec c rt method endpoint optFns s = (Inr r, s')"
  then show "resp_Errors r = []"
    by (auto simp: exec_def Let_def split: prod.splits http_result.splits if_splits sum.splits)
qed

text \<open>
  A response with two platform errors, once with status 200 and once with status 503.
\<close>

theorem exec_envelope_errors_witness:
  "fst (exec (refS1\<lparr>client := (\<lambda>w r. (Response 200 ''{errors:2}'', w))\<rparr>) refRuntime
          ''GET'' ''/accounts'' [] (start [] None True)) =
     Inl \<lparr>e_code = 102, e_internal = ''server returned one or more API errors'', e_method = ''GET'',
          e_msg = ''server returned one or more API errors'',
          e_url = ''https://s1.test/web/api/v2.1/accounts''\<rparr> \<and>
   fst (exec (refS1\<lparr>client := (\<lambda>w r. (Response 503 ''{errors:2}'', w))\<rparr>) refRuntime
          ''GET'' ''/accounts'' [] (start [] None True)) =
     Inl \<lparr>e_code = 102, e_internal = ''method is not allowed for endpoint'', e_method = ''GET'',
          e_msg = ''failed to execute request'',
          e_url = ''https://s1.test/web/api/v2.1/accounts''\<rparr>"
  using exec_envelope_errors
      [of "refS1\<lparr>client := (\<lambda>w r. (Response 200 ''{errors:2}'', w))\<rparr>" "start [] None True"
          "''GET''" "''/accounts''" "[]" refRuntime]
    exec_envelope_errors
      [of "refS1\<lparr>client := (\<lambda>w r. (Response 503 ''{errors:2}'', w))\<rparr>" "start [] None True"
          "''GET''" "''/accounts''" "[]" refRuntime]
  by (simp add: refS1_def refRuntime_def NewS1ClientRequestError_def S1ClientRequestErrorCode_def)

text \<open>
  C10. For each lookup by the natural key (\<open>FindAccount\<close> by name, \<open>FindUser\<close> by
  email address, \<open>FindRole\<close> by account identifier and role name): when the search is
  answered with a status below 405 and an envelope without errors whose payload decodes
  to the empty list, the lookup returns no object and no error.
\<close>

theorem lookup_of_nothing_is_nil:
  "(\<forall>code body w' env.
      client c (remote s)
        (apiCall c ''GET'' ''/accounts'' None [(''name'', name), (''limit'', ''1'')]) =
        (Response code body, w') \<and>
      code < 405 \<and> UnmarshalResponse rt body = Inr env \<and> resp_Errors env = [] \<and>
      UnmarshalAccounts rt (resp_Data env) = Inr [] \<longrightarrow>
      fst (FindAccount c rt name s) = Inr None) \<and>
   (\<forall>code body w' env.
      client c (remote s)
        (apiCall c ''GET'' ''/users'' None [(''email'', email), (''limit'', ''1'')]) =
        (Response code body, w') \<and>
      code < 405 \<and> UnmarshalResponse rt body = Inr env \<and> resp_Errors env = [] \<and>
      UnmarshalUsers rt (resp_Data env) = Inr [] \<longrightarrow>
      fst (FindUser c rt email s) = Inr None) \<and>
   (\<forall>code body w' env.
      client c (remote s)
        (apiCall c ''GET'' ''/rbac/roles'' None
           [(''accountIds'', accountID), (''name'', roleName), (''limit'', ''1'')]) =
        (Response code body, w') \<and>
      code < 405 \<and> UnmarshalResponse rt body = Inr env \<and> resp_Errors env = [] \<and>
      UnmarshalRoles rt (resp_Data env) = Inr [] \<longrightarrow>
      fst (FindRole c rt accountID roleName s) = Inr None)"
proof (intro conjI allI impI)
  fix code body w' env
  assume "client c (remote s)
        (apiCall c ''GET'' ''/accounts'' None [(''name'', name), (''limit'', ''1'')]) =
        (Response code body, w') \<and>
      code < 405 \<and> UnmarshalResponse rt body = Inr env \<and> resp_Errors env = [] \<and>
      UnmarshalAccounts rt (resp_Data env) = Inr []"
  then show "fst (FindAccount c rt name s) = Inr None"
    using exec_success [of c s "''GET''" "''/accounts''"
        "[withRequestParams [(''name'', name), (''limit'', ''1'')]]" code body w' rt env]
    by (simp add: FindAccount_def buildRequest_params)
next
  fix code body w' env
  assume "client c (remote s)
        (apiCall c ''GET'' ''/users'' None [(''email'', email), (''limit'', ''1'')]) =
        (Response code body, w') \<and>
      code < 405 \<and> UnmarshalResponse rt body = Inr env \<and> resp_Errors env = [] \<and>
      UnmarshalUsers rt (resp_Data env) = Inr []"
  then show "fst (FindUser c rt email s) = Inr None"
    using exec_success [of c s "''GET''" "''/users''"
        "[withRequestParams [(''email'', email), (''limit'', ''1'')]]" code body w' rt env]
    by (simp add: FindUser_def buildRequest_params)
next
  fix code body w' env
  assume "client c (remote s)
        (apiCall c ''GET'' ''/rbac/roles'' None
           [(''accountIds'', accountID), (''name'', roleName), (''limit'', ''1'')]) =
        (Response code body, w') \<and>
      code < 405 \<and> UnmarshalResponse rt body = Inr env \<and> resp_Errors env = [] \<and>
      UnmarshalRoles rt (resp_Data env) = Inr []"
  then show "fst (FindRole c rt accountID roleName s) = Inr None"
    using exec_success [of c s "''GET''" "''/rbac/roles''"
        "[withRequestParams [(''accountIds'', accountID), (''name'', roleName), (''limit'', ''1'')]]"
        code body w' rt env]
    by (simp add: FindRole_def buildRequest_params)
qed

text \<open>
  On the reference platform with no account, no user and no role.
\<close>

theorem lookup_of_nothing_is_nil_witness:
  "fst (FindAccount refS1 refRuntime ''Acme'' (start [] None False)) = Inr None \<and>
   fst (FindUser refS1 refRuntime ''ann@acme.test'' (start [] None False)) = Inr None \<and>
   fst (FindRole refS1 refRuntime ''acct-1'' ''Admin'' (start [] None False)) = Inr None"
  using lookup_of_nothing_is_nil
      [of refS1 "start [] None False" "''Acme''" refRuntime "''ann@acme.test''" "''acct-1''" "''Admin''"]
  by (simp add: refS1_def refRuntime_def refClient_def start_def apiCall_def)

end
